theory Spec2Isabelle
  imports Main "HOL-Library.Sublist"
begin

section \<open>Data model\<close>

text \<open>
  The tables of \<^verbatim>\<open>app/models/models.py\<close> and the adapter dataclasses of
  \<^verbatim>\<open>app/providers/base.py\<close>. Python attribute names are kept; since record fields
  share one name space, each carries a prefix for its class: \<open>p_\<close> Provider, \<open>k_\<close> APIKey,
  \<open>j_\<close> ImportJob, \<open>c_\<close> Conversation, \<open>m_\<close> Message, \<open>a_\<close> Artifact, \<open>pm_\<close>
  ProviderMessage, \<open>pa_\<close> ProviderArtifact, \<open>s_\<close> ProviderConversationSummary, \<open>d_\<close>
  ProviderConversationDetail. UUIDs and points in time are natural numbers, JSON blobs
  are their text.
\<close>

type_synonym uuid = nat
type_synonym datetime = nat
type_synonym json = string

record Provider =
  p_id :: uuid
  p_name :: string
  p_display_name :: string

record APIKey =
  k_id :: uuid
  k_provider_id :: uuid
  k_label :: string
  k_key_encrypted :: string
  k_is_active :: bool
  k_last_used_at :: "datetime option"

record ImportJob =
  j_id :: uuid
  j_provider_id :: uuid
  j_api_key_id :: uuid
  j_started_at :: datetime
  j_finished_at :: "datetime option"
  j_status :: string
  j_requested_range :: "(string \<times> string) list option"
  j_summary :: "string option"
  j_error_details :: "string option"
  j_conversations_imported :: int
  j_messages_imported :: int
  j_artifacts_imported :: int

record Conversation =
  c_id :: uuid
  c_provider_id :: uuid
  c_provider_conversation_id :: "string option"
  c_title :: "string option"
  c_started_at :: "datetime option"
  c_ended_at :: "datetime option"
  c_origin :: string
  c_import_job_id :: "uuid option"
  c_archived :: bool
  c_raw_metadata :: "json option"

record Message =
  m_id :: uuid
  m_conversation_id :: uuid
  m_provider_message_id :: "string option"
  m_role :: string
  m_created_at :: "datetime option"
  m_sequence_index :: int
  m_content :: string
  m_raw_metadata :: "json option"

record Artifact =
  a_id :: uuid
  a_conversation_id :: uuid
  a_message_id :: "uuid option"
  a_artifact_type :: string
  a_provider_artifact_id :: "string option"
  a_filename :: "string option"
  a_mime_type :: "string option"
  a_download_status :: string
  a_download_error :: "string option"
  a_raw_metadata :: "json option"

record ProviderMessage =
  pm_provider_message_id :: "string option"
  pm_role :: string
  pm_content :: string
  pm_created_at :: "datetime option"
  pm_sequence_index :: int
  pm_raw_metadata :: "json option"

record ProviderArtifact =
  pa_provider_artifact_id :: "string option"
  pa_artifact_type :: string
  pa_filename :: "string option"
  pa_mime_type :: "string option"
  pa_download_status :: string
  pa_download_error :: "string option"
  pa_message_sequence_index :: "int option"
  pa_raw_metadata :: "json option"

record ProviderConversationSummary =
  s_provider_conversation_id :: string
  s_title :: "string option"
  s_started_at :: "datetime option"
  s_ended_at :: "datetime option"
  s_message_count :: "int option"

record ProviderConversationDetail =
  d_provider_conversation_id :: string
  d_title :: "string option"
  d_started_at :: "datetime option"
  d_ended_at :: "datetime option"
  d_messages :: "ProviderMessage list"
  d_artifacts :: "ProviderArtifact list"
  d_raw_metadata :: "json option"

text \<open>The tables the import reads or writes, each a list of rows in insertion order.\<close>

record db =
  providers :: "Provider list"
  api_keys :: "APIKey list"
  import_jobs :: "ImportJob list"
  conversations :: "Conversation list"
  messages :: "Message list"
  artifacts :: "Artifact list"

section \<open>Exceptions, adapters and the environment\<close>

text \<open>
  Python exceptions derived from \<^verbatim>\<open>Exception\<close>: \<^verbatim>\<open>ValueError\<close>, which
  \<^verbatim>\<open>run_import_job\<close> catches by name, and any other class, given by its class name.
  Both carry the message that \<^verbatim>\<open>str(e)\<close> returns.
\<close>

datatype exn = ValueError string | Error string string

fun str_exn :: "exn \<Rightarrow> string" where
  "str_exn (ValueError msg) = msg"
| "str_exn (Error cls msg) = msg"

text \<open>
  \<^verbatim>\<open>ConversationProviderAdapter\<close>: the two abstract methods the import calls, each
  returning its value or the exception it raises.
\<close>

record adapter =
  provider_name :: string
  list_conversations :: "string \<Rightarrow> (string \<times> string) list \<Rightarrow> exn + ProviderConversationSummary list"
  fetch_conversation :: "string \<Rightarrow> string \<Rightarrow> exn + ProviderConversationDetail"

text \<open>
  What the import takes from outside: the clock, \<^verbatim>\<open>uuid.uuid4\<close> (the value of its
  k-th call), \<^verbatim>\<open>decrypt_api_key\<close>, the adapters registered in
  \<^verbatim>\<open>provider_registry\<close>, \<^verbatim>\<open>datetime.isoformat\<close>, and the database errors that
  \<^verbatim>\<open>db.flush()\<close> (line 110, inserting the conversation row) and \<^verbatim>\<open>db.commit()\<close>
  (line 143, inserting the message and artifact rows) may raise.
\<close>

record env =
  now :: datetime
  uuid4 :: "nat \<Rightarrow> uuid"
  isoformat :: "datetime \<Rightarrow> string"
  decrypt_api_key :: "string \<Rightarrow> exn + string"
  registry :: "string \<rightharpoonup> adapter"
  flush_raises :: "Conversation \<Rightarrow> exn option"
  commit_raises :: "Conversation \<Rightarrow> Message list \<Rightarrow> Artifact list \<Rightarrow> exn option"

text \<open>\<^verbatim>\<open>ProviderRegistry.get_adapter\<close> (providers/registry.py).\<close>

definition get_adapter :: "(string \<rightharpoonup> adapter) \<Rightarrow> string \<Rightarrow> exn + adapter" where
  "get_adapter adapters name =
     (case adapters name of
        None \<Rightarrow> Inl (ValueError (''Unknown provider: '' @ name))
      | Some a \<Rightarrow> Inr a)"

text \<open>The two adapters of the repository: placeholders that list nothing.\<close>

definition OpenAIAdapter :: "datetime \<Rightarrow> adapter" where
  "OpenAIAdapter t =
     \<lparr>provider_name = ''openai'',
      list_conversations = (\<lambda>api_key options. Inr []),
      fetch_conversation = (\<lambda>api_key conversation_id. Inr
        \<lparr>d_provider_conversation_id = conversation_id,
         d_title = Some ''Placeholder Conversation'',
         d_started_at = Some t, d_ended_at = None,
         d_messages = [], d_artifacts = [], d_raw_metadata = Some ''{}''\<rparr>)\<rparr>"

definition AnthropicAdapter :: "datetime \<Rightarrow> adapter" where
  "AnthropicAdapter t =
     \<lparr>provider_name = ''anthropic'',
      list_conversations = (\<lambda>api_key options. Inr []),
      fetch_conversation = (\<lambda>api_key conversation_id. Inr
        \<lparr>d_provider_conversation_id = conversation_id,
         d_title = Some ''Placeholder Claude Conversation'',
         d_started_at = Some t, d_ended_at = None,
         d_messages = [], d_artifacts = [], d_raw_metadata = Some ''{}''\<rparr>)\<rparr>"

definition register :: "adapter \<Rightarrow> (string \<rightharpoonup> adapter) \<Rightarrow> (string \<rightharpoonup> adapter)" where
  "register a adapters = adapters(provider_name a \<mapsto> a)"

definition provider_registry :: "datetime \<Rightarrow> (string \<rightharpoonup> adapter)" where
  "provider_registry t = register (AnthropicAdapter t) (register (OpenAIAdapter t) Map.empty)"

section \<open>Text formatting\<close>

fun str_nat :: "nat \<Rightarrow> string" where
  "str_nat n = (if n < 10 then [char_of (48 + n)]
                else str_nat (n div 10) @ [char_of (48 + n mod 10)])"

declare str_nat.simps [simp del]

definition str_int :: "int \<Rightarrow> string" where
  "str_int i = (if i < 0 then CHR ''-'' # str_nat (nat (- i)) else str_nat (nat i))"

text \<open>\<^verbatim>\<open>sep.join(xs)\<close>.\<close>

fun join :: "string \<Rightarrow> string list \<Rightarrow> string" where
  "join sep [] = []"
| "join sep [x] = x"
| "join sep (x # y # ys) = x @ sep @ join sep (y # ys)"

section \<open>The database session\<close>

text \<open>
  The state of one run of \<^verbatim>\<open>run_import_job\<close>: the rows committed to the database, the
  rows as the open session sees them (committed rows and its own uncommitted writes), the
  number of UUIDs drawn so far, and the local variables of the loop.
  \<^verbatim>\<open>db.commit()\<close> makes the session's rows the committed ones, \<^verbatim>\<open>db.rollback()\<close>
  discards the uncommitted writes.
\<close>

record run_state =
  committed :: db
  pending :: db
  uuid_calls :: nat
  conversations_count :: int
  messages_count :: int
  artifacts_count :: int
  errors :: "string list"

definition commit :: "run_state \<Rightarrow> run_state" where
  "commit st = st\<lparr>committed := pending st\<rparr>"

definition rollback :: "run_state \<Rightarrow> run_state" where
  "rollback st = st\<lparr>pending := committed st\<rparr>"

definition init_state :: "db \<Rightarrow> run_state" where
  "init_state d =
     \<lparr>committed = d, pending = d, uuid_calls = 0,
      conversations_count = 0, messages_count = 0, artifacts_count = 0, errors = []\<rparr>"

section \<open>Importing one conversation (import\_jobs.py, lines 82 to 148)\<close>

text \<open>The conversation row built at lines 100 to 108; columns not given take their defaults.\<close>

definition new_conversation ::
  "uuid \<Rightarrow> Provider \<Rightarrow> ImportJob \<Rightarrow> ProviderConversationDetail \<Rightarrow> Conversation" where
  "new_conversation cid provider job conv_detail =
     \<lparr>c_id = cid,
      c_provider_id = p_id provider,
      c_provider_conversation_id = Some (d_provider_conversation_id conv_detail),
      c_title = d_title conv_detail,
      c_started_at = d_started_at conv_detail,
      c_ended_at = d_ended_at conv_detail,
      c_origin = ''api'',
      c_import_job_id = Some (j_id job),
      c_archived = False,
      c_raw_metadata = d_raw_metadata conv_detail\<rparr>"

text \<open>The message row built at lines 116 to 124.\<close>

definition new_message :: "uuid \<Rightarrow> uuid \<Rightarrow> ProviderMessage \<Rightarrow> Message" where
  "new_message mid cid msg =
     \<lparr>m_id = mid,
      m_conversation_id = cid,
      m_provider_message_id = pm_provider_message_id msg,
      m_role = pm_role msg,
      m_created_at = pm_created_at msg,
      m_sequence_index = pm_sequence_index msg,
      m_content = pm_content msg,
      m_raw_metadata = pm_raw_metadata msg\<rparr>"

text \<open>One pass of the loop over \<^verbatim>\<open>conv_detail.messages\<close> (lines 115 to 126).\<close>

definition add_message :: "env \<Rightarrow> uuid \<Rightarrow> ProviderMessage \<Rightarrow> run_state \<Rightarrow> run_state" where
  "add_message E cid msg st =
     st\<lparr>pending := (pending st)\<lparr>messages := messages (pending st) @
            [new_message (uuid4 E (uuid_calls st)) cid msg]\<rparr>,
        uuid_calls := Suc (uuid_calls st),
        messages_count := messages_count st + 1\<rparr>"

text \<open>
  The artifact row built at lines 130 to 139. The constructor call names no
  \<^verbatim>\<open>message_id\<close>, so the column keeps its default, NULL.
\<close>

definition new_artifact :: "uuid \<Rightarrow> uuid \<Rightarrow> ProviderArtifact \<Rightarrow> Artifact" where
  "new_artifact aid cid art =
     \<lparr>a_id = aid,
      a_conversation_id = cid,
      a_message_id = None,
      a_artifact_type = pa_artifact_type art,
      a_provider_artifact_id = pa_provider_artifact_id art,
      a_filename = pa_filename art,
      a_mime_type = pa_mime_type art,
      a_download_status = pa_download_status art,
      a_download_error = pa_download_error art,
      a_raw_metadata = pa_raw_metadata art\<rparr>"

text \<open>One pass of the loop over \<^verbatim>\<open>conv_detail.artifacts\<close> (lines 129 to 141).\<close>

definition add_artifact :: "env \<Rightarrow> uuid \<Rightarrow> ProviderArtifact \<Rightarrow> run_state \<Rightarrow> run_state" where
  "add_artifact E cid art st =
     st\<lparr>pending := (pending st)\<lparr>artifacts := artifacts (pending st) @
            [new_artifact (uuid4 E (uuid_calls st)) cid art]\<rparr>,
        uuid_calls := Suc (uuid_calls st),
        artifacts_count := artifacts_count st + 1\<rparr>"

text \<open>The rows of the session that this conversation's inserts added.\<close>

definition new_messages :: "run_state \<Rightarrow> run_state \<Rightarrow> Message list" where
  "new_messages st st' = drop (length (messages (pending st))) (messages (pending st'))"

definition new_artifacts :: "run_state \<Rightarrow> run_state \<Rightarrow> Artifact list" where
  "new_artifacts st st' = drop (length (artifacts (pending st))) (artifacts (pending st'))"

text \<open>
  The body of the inner \<^verbatim>\<open>try\<close> (lines 83 to 143). \<open>Inr\<close> is the state when the body
  ends normally (also by the \<^verbatim>\<open>continue\<close> of a duplicate), \<open>Inl\<close> the exception raised
  together with the state at the statement that raised it.
\<close>

definition try_import ::
  "env \<Rightarrow> adapter \<Rightarrow> string \<Rightarrow> Provider \<Rightarrow> ImportJob \<Rightarrow> ProviderConversationSummary
     \<Rightarrow> run_state \<Rightarrow> (exn \<times> run_state) + run_state" where
  "try_import E adp api_key provider job summary st =
     (case fetch_conversation adp api_key (s_provider_conversation_id summary) of
        Inl e \<Rightarrow> Inl (e, st)
      | Inr conv_detail \<Rightarrow>
          (case find (\<lambda>c. c_provider_id c = p_id provider \<and>
                           c_provider_conversation_id c =
                             Some (d_provider_conversation_id conv_detail))
                     (conversations (pending st)) of
             Some existing \<Rightarrow> Inr st
           | None \<Rightarrow>
               let conversation =
                     new_conversation (uuid4 E (uuid_calls st)) provider job conv_detail;
                   st1 = st\<lparr>pending := (pending st)\<lparr>conversations :=
                                conversations (pending st) @ [conversation]\<rparr>,
                            uuid_calls := Suc (uuid_calls st)\<rparr>
               in (case flush_raises E conversation of
                     Some e \<Rightarrow> Inl (e, st1)
                   | None \<Rightarrow>
                       let st2 = st1\<lparr>conversations_count := conversations_count st1 + 1\<rparr>;
                           st3 = fold (add_message E (c_id conversation))
                                      (d_messages conv_detail) st2;
                           st4 = fold (add_artifact E (c_id conversation))
                                      (d_artifacts conv_detail) st3
                       in (case commit_raises E conversation
                                  (new_messages st st4) (new_artifacts st st4) of
                             Some e \<Rightarrow> Inl (e, st4)
                           | None \<Rightarrow> Inr (commit st4)))))"

text \<open>The entry appended to \<^verbatim>\<open>errors\<close> at line 146.\<close>

definition error_entry :: "ProviderConversationSummary \<Rightarrow> exn \<Rightarrow> string" where
  "error_entry summary e =
     ''Error importing conversation '' @ s_provider_conversation_id summary @ '': '' @ str_exn e"

text \<open>One iteration of the loop: the \<^verbatim>\<open>try\<close> body and its \<^verbatim>\<open>except Exception\<close> handler.\<close>

definition import_one ::
  "env \<Rightarrow> adapter \<Rightarrow> string \<Rightarrow> Provider \<Rightarrow> ImportJob \<Rightarrow> ProviderConversationSummary
     \<Rightarrow> run_state \<Rightarrow> run_state" where
  "import_one E adp api_key provider job summary st =
     (case try_import E adp api_key provider job summary st of
        Inr st' \<Rightarrow> st'
      | Inl (e, st') \<Rightarrow> rollback (st'\<lparr>errors := errors st' @ [error_entry summary e]\<rparr>))"

text \<open>The loop \<^verbatim>\<open>for summary in conv_summaries\<close> (line 81).\<close>

definition import_loop ::
  "env \<Rightarrow> adapter \<Rightarrow> string \<Rightarrow> Provider \<Rightarrow> ImportJob \<Rightarrow> ProviderConversationSummary list
     \<Rightarrow> run_state \<Rightarrow> run_state" where
  "import_loop E adp api_key provider job conv_summaries st =
     fold (import_one E adp api_key provider job) conv_summaries st"

section \<open>The job run (import\_jobs.py, lines 16 to 172)\<close>

text \<open>
  Writes to the job and the key go through the ORM objects loaded by primary key, so
  they reach the rows with that key.
\<close>

definition update_job :: "uuid \<Rightarrow> (ImportJob \<Rightarrow> ImportJob) \<Rightarrow> db \<Rightarrow> db" where
  "update_job jid f d = d\<lparr>import_jobs := map (\<lambda>j. if j_id j = jid then f j else j) (import_jobs d)\<rparr>"

definition update_api_key :: "uuid \<Rightarrow> (APIKey \<Rightarrow> APIKey) \<Rightarrow> db \<Rightarrow> db" where
  "update_api_key kid f d = d\<lparr>api_keys := map (\<lambda>k. if k_id k = kid then f k else k) (api_keys d)\<rparr>"

text \<open>
  The four statements \<^verbatim>\<open>job.status = "failed"\<close>, \<^verbatim>\<open>job.error_details = ...\<close>,
  \<^verbatim>\<open>job.finished_at = datetime.now()\<close>, \<^verbatim>\<open>db.commit()\<close> that every fatal path ends with.
\<close>

definition fail_job :: "env \<Rightarrow> uuid \<Rightarrow> string \<Rightarrow> run_state \<Rightarrow> run_state" where
  "fail_job E jid reason st =
     commit (st\<lparr>pending := update_job jid
        (\<lambda>j. j\<lparr>j_status := ''failed'', j_error_details := Some reason,
                j_finished_at := Some (now E)\<rparr>) (pending st)\<rparr>)"

definition summary_text :: "int \<Rightarrow> int \<Rightarrow> int \<Rightarrow> string" where
  "summary_text c m a =
     ''Imported '' @ str_int c @ '' conversations, '' @ str_int m @ '' messages, ''
       @ str_int a @ '' artifacts''"

text \<open>Lines 150 to 163.\<close>

definition finalize :: "env \<Rightarrow> uuid \<Rightarrow> uuid \<Rightarrow> run_state \<Rightarrow> run_state" where
  "finalize E jid kid st =
     commit (st\<lparr>pending :=
        update_api_key kid (\<lambda>k. k\<lparr>k_last_used_at := Some (now E)\<rparr>)
          (update_job jid
            (\<lambda>j. j\<lparr>j_status := (if errors st = [] then ''success'' else ''partial''),
                    j_conversations_imported := conversations_count st,
                    j_messages_imported := messages_count st,
                    j_artifacts_imported := artifacts_count st,
                    j_summary := Some (summary_text (conversations_count st)
                                         (messages_count st) (artifacts_count st)),
                    j_error_details := (if errors st = [] then j_error_details j
                                        else Some (join [CHR 0x0A] (take 10 (errors st)))),
                    j_finished_at := Some (now E)\<rparr>)
            (pending st))\<rparr>)"

text \<open>
  How a call of \<^verbatim>\<open>run_import_job\<close> ends: at one of its \<^verbatim>\<open>return\<close> statements (lines 34,
  43, 54, 64), at the end of the outer \<^verbatim>\<open>try\<close> (line 163), at the end of its handler
  (line 169), or with an exception that no handler of the function catches.
\<close>

datatype exit =
    ReturnNoJob
  | ReturnKeyNotFound
  | ReturnProviderNotFound
  | ReturnUnknownProvider
  | Finalized
  | ListFailed
  | Raised exn

text \<open>\<^verbatim>\<open>options\<close>, lines 67 to 69.\<close>

definition build_options :: "ImportJob \<Rightarrow> (string \<times> string) list" where
  "build_options job =
     (case j_requested_range job of
        None \<Rightarrow> []
      | Some r \<Rightarrow> if r = [] then [] else r)"

text \<open>
  \<^verbatim>\<open>run_import_job\<close>. The result is the way the call ended and the rows committed when
  \<^verbatim>\<open>db.close()\<close> runs.
\<close>

definition run_import_job :: "env \<Rightarrow> uuid \<Rightarrow> db \<Rightarrow> exit \<times> db" where
  "run_import_job E job_id d0 =
     (let st0 = init_state d0 in
      case find (\<lambda>j. j_id j = job_id) (import_jobs (pending st0)) of
        None \<Rightarrow> (ReturnNoJob, committed st0)
      | Some job \<Rightarrow>
      (case find (\<lambda>k. k_id k = j_api_key_id job) (api_keys (pending st0)) of
        None \<Rightarrow>
          (ReturnKeyNotFound, committed (fail_job E (j_id job) ''API key not found'' st0))
      | Some api_key_record \<Rightarrow>
      (case decrypt_api_key E (k_key_encrypted api_key_record) of
        Inl e \<Rightarrow> (Raised e, committed st0)
      | Inr api_key \<Rightarrow>
      (case find (\<lambda>p. p_id p = j_provider_id job) (providers (pending st0)) of
        None \<Rightarrow>
          (ReturnProviderNotFound, committed (fail_job E (j_id job) ''Provider not found'' st0))
      | Some provider \<Rightarrow>
      (case get_adapter (registry E) (p_name provider) of
        Inl (ValueError msg) \<Rightarrow>
          (ReturnUnknownProvider, committed (fail_job E (j_id job) msg st0))
      | Inl (Error cls msg) \<Rightarrow> (Raised (Error cls msg), committed st0)
      | Inr adp \<Rightarrow>
      (case list_conversations adp api_key (build_options job) of
        Inl e \<Rightarrow> (ListFailed, committed (fail_job E (j_id job) (str_exn e) st0))
      | Inr conv_summaries \<Rightarrow>
          (Finalized,
           committed (finalize E (j_id job) (k_id api_key_record)
             (import_loop E adp api_key provider job conv_summaries st0)))))))))"

section \<open>Creating a job (import\_jobs.py, lines 202 to 249)\<close>

record ImportJobCreate =
  jc_provider_id :: uuid
  jc_api_key_id :: uuid
  jc_from_date :: "datetime option"
  jc_to_date :: "datetime option"

datatype http_exception = HTTPException nat string

definition build_requested_range :: "env \<Rightarrow> ImportJobCreate \<Rightarrow> (string \<times> string) list" where
  "build_requested_range E job_data =
     (case jc_from_date job_data of None \<Rightarrow> [] | Some t \<Rightarrow> [(''from_date'', isoformat E t)]) @
     (case jc_to_date job_data of None \<Rightarrow> [] | Some t \<Rightarrow> [(''to_date'', isoformat E t)])"

text \<open>
  \<^verbatim>\<open>create_import_job\<close>: the error of the request, or the job row inserted and the
  database after its commit; the background task started at line 247 is then
  \<open>run_import_job\<close> on that job's id.
\<close>

definition create_import_job :: "env \<Rightarrow> ImportJobCreate \<Rightarrow> db \<Rightarrow> http_exception + ImportJob \<times> db" where
  "create_import_job E job_data d =
     (case find (\<lambda>k. k_id k = jc_api_key_id job_data) (api_keys d) of
        None \<Rightarrow> Inl (HTTPException 404 ''API key not found'')
      | Some api_key \<Rightarrow>
          if \<not> k_is_active api_key then Inl (HTTPException 400 ''API key is not active'')
          else (case find (\<lambda>p. p_id p = jc_provider_id job_data) (providers d) of
                  None \<Rightarrow> Inl (HTTPException 404 ''Provider not found'')
                | Some provider \<Rightarrow>
                    let requested_range = build_requested_range E job_data;
                        job = \<lparr>j_id = uuid4 E 0,
                               j_provider_id = jc_provider_id job_data,
                               j_api_key_id = jc_api_key_id job_data,
                               j_started_at = now E,
                               j_finished_at = None,
                               j_status = ''running'',
                               j_requested_range =
                                 (if requested_range = [] then None else Some requested_range),
                               j_summary = None,
                               j_error_details = None,
                               j_conversations_imported = 0,
                               j_messages_imported = 0,
                               j_artifacts_imported = 0\<rparr>
                    in Inr (job, d\<lparr>import_jobs := import_jobs d @ [job]\<rparr>)))"

text \<open>\<^verbatim>\<open>get_import_job\<close> (lines 190 to 199): how a caller reads a job run.\<close>

definition get_import_job :: "uuid \<Rightarrow> db \<Rightarrow> http_exception + ImportJob" where
  "get_import_job job_id d =
     (case find (\<lambda>j. j_id j = job_id) (import_jobs d) of
        None \<Rightarrow> Inl (HTTPException 404 ''Import job not found'')
      | Some job \<Rightarrow> Inr job)"

section \<open>Observing a run\<close>

text \<open>
  The rows that the loop over messages and the loop over artifacts insert, as lists:
  the k-th UUID drawn goes to the first row, the next one to the second row, and so on.
\<close>

fun message_rows :: "env \<Rightarrow> uuid \<Rightarrow> nat \<Rightarrow> ProviderMessage list \<Rightarrow> Message list" where
  "message_rows E cid k [] = []"
| "message_rows E cid k (msg # msgs) =
     new_message (uuid4 E k) cid msg # message_rows E cid (Suc k) msgs"

fun artifact_rows :: "env \<Rightarrow> uuid \<Rightarrow> nat \<Rightarrow> ProviderArtifact list \<Rightarrow> Artifact list" where
  "artifact_rows E cid k [] = []"
| "artifact_rows E cid k (art # arts) =
     new_artifact (uuid4 E k) cid art # artifact_rows E cid (Suc k) arts"

text \<open>
  What happened to one summary: its \<^verbatim>\<open>try\<close> body raised, or it ended without touching
  the state (the \<^verbatim>\<open>continue\<close> of a duplicate), or it ended after its commit.
\<close>

datatype outcome = Imported | Skipped | Failed exn

definition outcome_of :: "run_state \<Rightarrow> (exn \<times> run_state) + run_state \<Rightarrow> outcome" where
  "outcome_of st r =
     (case r of
        Inl (e, st') \<Rightarrow> Failed e
      | Inr st' \<Rightarrow> if st' = st then Skipped else Imported)"

text \<open>The outcome of every summary of the loop, in the order of the list.\<close>

fun outcomes ::
  "env \<Rightarrow> adapter \<Rightarrow> string \<Rightarrow> Provider \<Rightarrow> ImportJob \<Rightarrow> ProviderConversationSummary list
     \<Rightarrow> run_state \<Rightarrow> outcome list" where
  "outcomes E adp api_key provider job [] st = []"
| "outcomes E adp api_key provider job (summary # rest) st =
     outcome_of st (try_import E adp api_key provider job summary st)
       # outcomes E adp api_key provider job rest
           (import_one E adp api_key provider job summary st)"

fun is_failed :: "outcome \<Rightarrow> bool" where
  "is_failed (Failed e) = True"
| "is_failed Imported = False"
| "is_failed Skipped = False"

text \<open>The error entries that belong to the failed summaries, in order.\<close>

fun failure_entries :: "ProviderConversationSummary list \<Rightarrow> outcome list \<Rightarrow> string list" where
  "failure_entries (summary # rest) (Failed e # os) = error_entry summary e # failure_entries rest os"
| "failure_entries (summary # rest) (oc # os) = failure_entries rest os"
| "failure_entries summaries os = []"

text \<open>
  The database after the rows of one fetched conversation are appended: the conversation
  row takes the k-th UUID, its message rows the following ones, then its artifact rows.
\<close>

definition conversation_stored ::
  "env \<Rightarrow> Provider \<Rightarrow> ImportJob \<Rightarrow> ProviderConversationDetail \<Rightarrow> nat \<Rightarrow> db \<Rightarrow> db" where
  "conversation_stored E provider job conv_detail k d =
     d\<lparr>conversations := conversations d @
          [new_conversation (uuid4 E k) provider job conv_detail],
       messages := messages d @
          message_rows E (uuid4 E k) (Suc k) (d_messages conv_detail),
       artifacts := artifacts d @
          artifact_rows E (uuid4 E k) (Suc k + length (d_messages conv_detail))
            (d_artifacts conv_detail)\<rparr>"

text \<open>The test of line 90: a conversation of this provider with this provider-native id.\<close>

definition same_conversation :: "uuid \<Rightarrow> string \<Rightarrow> Conversation \<Rightarrow> bool" where
  "same_conversation pid cid c =
     (c_provider_id c = pid \<and> c_provider_conversation_id c = Some cid)"

section \<open>Example data\<close>

text \<open>
  One provider, one key and one running job; an adapter that lists the given ids, fetches
  conversation \<open>a\<close> with three messages and one artifact that names the message of
  sequence index 1, and times out on every other id.
\<close>

definition prov1 :: Provider where
  "prov1 = \<lparr>p_id = 1, p_name = ''openai'', p_display_name = ''ChatGPT''\<rparr>"

definition key1 :: APIKey where
  "key1 = \<lparr>k_id = 2, k_provider_id = 1, k_label = ''main'', k_key_encrypted = ''gAAAAB'',
            k_is_active = True, k_last_used_at = None\<rparr>"

definition job1 :: ImportJob where
  "job1 = \<lparr>j_id = 3, j_provider_id = 1, j_api_key_id = 2, j_started_at = 50,
            j_finished_at = None, j_status = ''running'', j_requested_range = None,
            j_summary = None, j_error_details = None, j_conversations_imported = 0,
            j_messages_imported = 0, j_artifacts_imported = 0\<rparr>"

definition db1 :: db where
  "db1 = \<lparr>providers = [prov1], api_keys = [key1], import_jobs = [job1],
           conversations = [], messages = [], artifacts = []\<rparr>"

definition msg_of :: "int \<Rightarrow> string \<Rightarrow> ProviderMessage" where
  "msg_of i r = \<lparr>pm_provider_message_id = None, pm_role = r, pm_content = ''hello'',
                 pm_created_at = None, pm_sequence_index = i, pm_raw_metadata = None\<rparr>"

definition art_of :: "int option \<Rightarrow> ProviderArtifact" where
  "art_of i = \<lparr>pa_provider_artifact_id = None, pa_artifact_type = ''file'',
               pa_filename = Some ''notes.txt'', pa_mime_type = None,
               pa_download_status = ''pending'', pa_download_error = None,
               pa_message_sequence_index = i, pa_raw_metadata = None\<rparr>"

definition summary_of :: "string \<Rightarrow> ProviderConversationSummary" where
  "summary_of i = \<lparr>s_provider_conversation_id = i, s_title = None, s_started_at = None,
                   s_ended_at = None, s_message_count = None\<rparr>"

definition detail_a :: ProviderConversationDetail where
  "detail_a = \<lparr>d_provider_conversation_id = ''a'', d_title = Some ''First'',
                d_started_at = None, d_ended_at = None,
                d_messages = [msg_of 0 ''user'', msg_of 1 ''assistant'', msg_of 2 ''user''],
                d_artifacts = [art_of (Some 1)], d_raw_metadata = None\<rparr>"

definition scenario_adapter :: "string list \<Rightarrow> adapter" where
  "scenario_adapter ids =
     \<lparr>provider_name = ''openai'',
      list_conversations = (\<lambda>api_key options. Inr (map summary_of ids)),
      fetch_conversation = (\<lambda>api_key conversation_id.
         if conversation_id = ''a'' then Inr detail_a
         else Inl (Error ''TimeoutError'' ''timed out''))\<rparr>"

definition env1 :: "string list \<Rightarrow> env" where
  "env1 ids = \<lparr>now = 100, uuid4 = (\<lambda>k. 10 + k), isoformat = str_nat,
                decrypt_api_key = (\<lambda>c. Inr ''sk-test''),
                registry = [''openai'' \<mapsto> scenario_adapter ids],
                flush_raises = (\<lambda>c. None), commit_raises = (\<lambda>c ms as. None)\<rparr>"

text \<open>The same, with a key that does not decrypt.\<close>

definition env_bad_key :: env where
  "env_bad_key = (env1 [''a''])\<lparr>decrypt_api_key := (\<lambda>c. Inl (Error ''InvalidToken'' []))\<rparr>"

text \<open>The database after conversation \<open>a\<close> was imported by an earlier job.\<close>

definition conv_a :: Conversation where
  "conv_a = \<lparr>c_id = 7, c_provider_id = 1, c_provider_conversation_id = Some ''a'',
              c_title = Some ''Old title'', c_started_at = None, c_ended_at = None,
              c_origin = ''api'', c_import_job_id = None, c_archived = False,
              c_raw_metadata = None\<rparr>"

definition db2 :: db where
  "db2 = db1\<lparr>conversations := [conv_a]\<rparr>"

text \<open>The database with the key deactivated, and with the key deleted.\<close>

definition db_inactive :: db where
  "db_inactive = db1\<lparr>api_keys := [key1\<lparr>k_is_active := False\<rparr>]\<rparr>"

definition db_no_key :: db where
  "db_no_key = db1\<lparr>api_keys := []\<rparr>"

section \<open>Facts about the inner iterations and one pass of the loop\<close>

lemma fold_add_message:
  "fold (add_message E cid) ms st =
      st\<lparr>pending := (pending st)\<lparr>messages := messages (pending st) @ message_rows E cid (uuid_calls st) ms\<rparr>,
         uuid_calls := uuid_calls st + length ms,
         messages_count := messages_count st + int (length ms)\<rparr>"
  by (induction ms arbitrary: st) (simp_all add: add_message_def)

lemma fold_add_artifact:
  "fold (add_artifact E cid) as st =
      st\<lparr>pending := (pending st)\<lparr>artifacts := artifacts (pending st) @ artifact_rows E cid (uuid_calls st) as\<rparr>,
         uuid_calls := uuid_calls st + length as,
         artifacts_count := artifacts_count st + int (length as)\<rparr>"
  by (induction as arbitrary: st) (simp_all add: add_artifact_def)

lemmas try_defs = try_import_def Let_def fold_add_message fold_add_artifact commit_def
  new_messages_def new_artifacts_def

lemma try_import_Inl_committed:
  "try_import E adp key p job s st = Inl (e, st') \<Longrightarrow>
     committed st' = committed st \<and> errors st' = errors st"
  by (auto simp: try_defs split: sum.splits option.splits)

lemma try_import_Inr_errors:
  "try_import E adp key p job s st = Inr st' \<Longrightarrow> errors st' = errors st"
  by (auto simp: try_defs split: sum.splits option.splits)

lemma try_import_Inr_pending:
  "try_import E adp key p job s st = Inr st' \<Longrightarrow> pending st = committed st \<Longrightarrow>
     pending st' = committed st'"
  by (auto simp: try_defs split: sum.splits option.splits)

lemma import_one_inv:
  "pending st = committed st \<Longrightarrow>
     pending (import_one E adp key p job s st) = committed (import_one E adp key p job s st)"
  by (auto simp: import_one_def rollback_def split: sum.splits dest: try_import_Inr_pending)

lemma import_one_errors:
  "errors (import_one E adp key p job s st) =
     errors st @ (case try_import E adp key p job s st of
                    Inl (e, st') \<Rightarrow> [error_entry s e] | Inr st' \<Rightarrow> [])"
  by (auto simp: import_one_def rollback_def split: sum.splits
           dest: try_import_Inr_errors try_import_Inl_committed)

lemma import_one_raised_committed:
  "isl (try_import E adp key p job s st) \<Longrightarrow>
     committed (import_one E adp key p job s st) = committed st \<and>
     pending (import_one E adp key p job s st) = committed st"
  by (auto simp: import_one_def rollback_def isl_def split: sum.splits
           dest: try_import_Inl_committed)

lemma import_loop_Cons:
  "import_loop E adp key p job (s # ss) st =
     import_loop E adp key p job ss (import_one E adp key p job s st)"
  by (simp add: import_loop_def)

lemma import_loop_Nil: "import_loop E adp key p job [] st = st"
  by (simp add: import_loop_def)

lemma import_loop_append:
  "import_loop E adp key p job (xs @ ys) st =
     import_loop E adp key p job ys (import_loop E adp key p job xs st)"
  by (simp add: import_loop_def)

lemma import_loop_inv:
  "pending st = committed st \<Longrightarrow>
     pending (import_loop E adp key p job ss st) = committed (import_loop E adp key p job ss st)"
  by (induction ss arbitrary: st) (simp_all add: import_loop_Nil import_loop_Cons import_one_inv)

section \<open>The five ways one iteration can go\<close>

lemma try_import_cases [case_names FetchRaised Skipped FlushRaised CommitRaised Imported]:
  obtains
    (FetchRaised) e where
      "fetch_conversation adp key (s_provider_conversation_id s) = Inl e"
      "try_import E adp key p job s st = Inl (e, st)"
  | (Skipped) detail existing where
      "fetch_conversation adp key (s_provider_conversation_id s) = Inr detail"
      "find (same_conversation (p_id p) (d_provider_conversation_id detail))
            (conversations (pending st)) = Some existing"
      "try_import E adp key p job s st = Inr st"
  | (FlushRaised) detail e st1 where
      "fetch_conversation adp key (s_provider_conversation_id s) = Inr detail"
      "find (same_conversation (p_id p) (d_provider_conversation_id detail))
            (conversations (pending st)) = None"
      "flush_raises E (new_conversation (uuid4 E (uuid_calls st)) p job detail) = Some e"
      "try_import E adp key p job s st = Inl (e, st1)"
      "committed st1 = committed st" "errors st1 = errors st"
      "conversations_count st1 = conversations_count st"
      "messages_count st1 = messages_count st"
      "artifacts_count st1 = artifacts_count st"
  | (CommitRaised) detail e st4 where
      "fetch_conversation adp key (s_provider_conversation_id s) = Inr detail"
      "find (same_conversation (p_id p) (d_provider_conversation_id detail))
            (conversations (pending st)) = None"
      "flush_raises E (new_conversation (uuid4 E (uuid_calls st)) p job detail) = None"
      "commit_raises E (new_conversation (uuid4 E (uuid_calls st)) p job detail)
         (message_rows E (uuid4 E (uuid_calls st)) (Suc (uuid_calls st)) (d_messages detail))
         (artifact_rows E (uuid4 E (uuid_calls st))
            (Suc (uuid_calls st) + length (d_messages detail)) (d_artifacts detail)) = Some e"
      "try_import E adp key p job s st = Inl (e, st4)"
      "committed st4 = committed st" "errors st4 = errors st"
      "conversations_count st4 = conversations_count st + 1"
      "messages_count st4 = messages_count st + int (length (d_messages detail))"
      "artifacts_count st4 = artifacts_count st + int (length (d_artifacts detail))"
  | (Imported) detail where
      "fetch_conversation adp key (s_provider_conversation_id s) = Inr detail"
      "find (same_conversation (p_id p) (d_provider_conversation_id detail))
            (conversations (pending st)) = None"
      "flush_raises E (new_conversation (uuid4 E (uuid_calls st)) p job detail) = None"
      "try_import E adp key p job s st =
         Inr (st\<lparr>committed := conversation_stored E p job detail (uuid_calls st) (pending st),
                 pending := conversation_stored E p job detail (uuid_calls st) (pending st),
                 uuid_calls := Suc (uuid_calls st) + length (d_messages detail)
                                 + length (d_artifacts detail),
                 conversations_count := conversations_count st + 1,
                 messages_count := messages_count st + int (length (d_messages detail)),
                 artifacts_count := artifacts_count st + int (length (d_artifacts detail))\<rparr>)"
proof (cases "fetch_conversation adp key (s_provider_conversation_id s)")
  case (Inl e)
  then show ?thesis using FetchRaised by (simp add: try_import_def)
next
  case (Inr detail)
  note fetch = this
  show ?thesis
  proof (cases "find (same_conversation (p_id p) (d_provider_conversation_id detail))
                  (conversations (pending st))")
    case (Some existing)
    then show ?thesis using Skipped fetch
      by (simp add: try_import_def same_conversation_def [abs_def])
  next
    case None
    note nodup = this
    show ?thesis
    proof (cases "flush_raises E (new_conversation (uuid4 E (uuid_calls st)) p job detail)")
      case (Some e)
      then show ?thesis using FlushRaised [OF fetch nodup] fetch nodup
        by (simp add: try_import_def same_conversation_def [abs_def] Let_def)
    next
      case None
      note noflush = this
      have cid: "c_id (new_conversation (uuid4 E (uuid_calls st)) p job detail)
                   = uuid4 E (uuid_calls st)"
        by (simp add: new_conversation_def)
      show ?thesis
      proof (cases "commit_raises E (new_conversation (uuid4 E (uuid_calls st)) p job detail)
         (message_rows E (uuid4 E (uuid_calls st)) (Suc (uuid_calls st)) (d_messages detail))
         (artifact_rows E (uuid4 E (uuid_calls st))
            (Suc (uuid_calls st) + length (d_messages detail)) (d_artifacts detail))")
        case (Some e)
        then show ?thesis using CommitRaised [OF fetch nodup noflush] fetch nodup noflush
          by (simp add: try_defs same_conversation_def [abs_def] cid)
      next
        case None
        then show ?thesis using Imported [OF fetch nodup noflush] fetch nodup noflush
          by (simp add: try_defs same_conversation_def [abs_def] cid conversation_stored_def)
      qed
    qed
  qed
qed

section \<open>What one iteration does to the state\<close>

lemma find_same_Some:
  "find (same_conversation pid cid) cs = Some c \<Longrightarrow> c \<in> set cs \<and> same_conversation pid cid c"
  by (auto simp: find_Some_iff)

lemma find_same_None:
  "find (same_conversation pid cid) cs = None \<Longrightarrow> filter (same_conversation pid cid) cs = []"
  by (auto simp: find_None_iff filter_empty_conv)

lemma import_one_skipped:
  "fetch_conversation adp key (s_provider_conversation_id s) = Inr detail \<Longrightarrow>
   find (same_conversation (p_id p) (d_provider_conversation_id detail))
        (conversations (pending st)) = Some existing \<Longrightarrow>
     import_one E adp key p job s st = st"
  by (simp add: import_one_def try_import_def same_conversation_def [abs_def])

text \<open>The committed tables only grow, and only the three tables of conversations.\<close>

lemma import_one_frame:
  assumes inv: "pending st = committed st"
  shows "providers (committed (import_one E adp key p job s st)) = providers (committed st)"
    and "api_keys (committed (import_one E adp key p job s st)) = api_keys (committed st)"
    and "import_jobs (committed (import_one E adp key p job s st)) = import_jobs (committed st)"
    and "prefix (conversations (committed st))
                (conversations (committed (import_one E adp key p job s st)))"
    and "prefix (messages (committed st))
                (messages (committed (import_one E adp key p job s st)))"
    and "prefix (artifacts (committed st))
                (artifacts (committed (import_one E adp key p job s st)))"
  using inv
  by (cases rule: try_import_cases [of adp key s E p job st];
      simp add: import_one_def rollback_def conversation_stored_def)+

lemma import_loop_frame:
  assumes inv: "pending st = committed st"
  shows "providers (committed (import_loop E adp key p job ss st)) = providers (committed st)"
    and "api_keys (committed (import_loop E adp key p job ss st)) = api_keys (committed st)"
    and "import_jobs (committed (import_loop E adp key p job ss st)) = import_jobs (committed st)"
    and "prefix (conversations (committed st))
                (conversations (committed (import_loop E adp key p job ss st)))"
    and "prefix (messages (committed st))
                (messages (committed (import_loop E adp key p job ss st)))"
    and "prefix (artifacts (committed st))
                (artifacts (committed (import_loop E adp key p job ss st)))"
  using inv
proof (induction ss arbitrary: st)
  case Nil
  {
    case 1 show ?case by (simp add: import_loop_Nil)
  next
    case 2 show ?case by (simp add: import_loop_Nil)
  next
    case 3 show ?case by (simp add: import_loop_Nil)
  next
    case 4 show ?case by (simp add: import_loop_Nil)
  next
    case 5 show ?case by (simp add: import_loop_Nil)
  next
    case 6 show ?case by (simp add: import_loop_Nil)
  }
next
  case (Cons s ss)
  {
    case 1
    then show ?case
      using Cons.IH(1) [OF import_one_inv [OF 1]] import_one_frame(1) [OF 1]
      by (simp add: import_loop_Cons)
  next
    case 2
    then show ?case
      using Cons.IH(2) [OF import_one_inv [OF 2]] import_one_frame(2) [OF 2]
      by (simp add: import_loop_Cons)
  next
    case 3
    then show ?case
      using Cons.IH(3) [OF import_one_inv [OF 3]] import_one_frame(3) [OF 3]
      by (simp add: import_loop_Cons)
  next
    case 4
    then show ?case
      using Cons.IH(4) [OF import_one_inv [OF 4]] import_one_frame(4) [OF 4]
      by (metis import_loop_Cons prefix_order.order_trans)
  next
    case 5
    then show ?case
      using Cons.IH(5) [OF import_one_inv [OF 5]] import_one_frame(5) [OF 5]
      by (metis import_loop_Cons prefix_order.order_trans)
  next
    case 6
    then show ?case
      using Cons.IH(6) [OF import_one_inv [OF 6]] import_one_frame(6) [OF 6]
      by (metis import_loop_Cons prefix_order.order_trans)
  }
qed

section \<open>A run without a job row\<close>

text \<open>
  C10. If no ImportJob row has the given id when the background task starts,
  \<^verbatim>\<open>run_import_job\<close> returns at line 34 and the committed database is the one it
  started from: no job, key, conversation, message or artifact row is created or changed.
\<close>

theorem no_job_row_no_effect:
  "find (\<lambda>j. j_id j = job_id) (import_jobs d) = None \<Longrightarrow>
     run_import_job E job_id d = (ReturnNoJob, d)"
  by (simp add: run_import_job_def init_state_def)

theorem no_job_row_no_effect_witness:
  "find (\<lambda>j. j_id j = 4) (import_jobs db2) = None \<and>
   run_import_job (env1 [''a'']) 4 db2 = (ReturnNoJob, db2)"
proof -
  have h: "find (\<lambda>j. j_id j = 4) (import_jobs db2) = None"
    by (simp add: db2_def db1_def job1_def)
  show ?thesis using h no_job_row_no_effect [OF h, of "env1 [''a'']"] by simp
qed

section \<open>Evaluating runs on the example data\<close>

lemmas run_eval =
  run_import_job_def init_state_def import_loop_def import_one_def try_import_def Let_def
  add_message_def add_artifact_def commit_def rollback_def finalize_def fail_job_def
  update_job_def update_api_key_def get_adapter_def build_options_def error_entry_def
  new_conversation_def new_message_def new_artifact_def new_messages_def new_artifacts_def
  get_import_job_def outcome_of_def

lemmas example_defs =
  env1_def env_bad_key_def db1_def db2_def db_inactive_def db_no_key_def prov1_def key1_def
  job1_def conv_a_def scenario_adapter_def detail_a_def msg_of_def art_of_def summary_of_def

section \<open>A key that does not decrypt\<close>

text \<open>
  C3. The claim: if decrypting the credential throws, the run ends with status
  \<open>failed\<close>, zero items processed and the reason in the error details. The code: the
  call of \<^verbatim>\<open>decrypt_api_key\<close> at line 45 stands in the outer \<^verbatim>\<open>try\<close>, which has a
  \<^verbatim>\<open>finally\<close> and no \<^verbatim>\<open>except\<close>; the exception leaves \<^verbatim>\<open>run_import_job\<close> and
  nothing is committed, so the job row keeps its status \<open>running\<close> and records no reason.
\<close>

theorem decrypt_failure_escapes:
  "find (\<lambda>j. j_id j = job_id) (import_jobs d) = Some job \<Longrightarrow>
   find (\<lambda>k. k_id k = j_api_key_id job) (api_keys d) = Some api_key_record \<Longrightarrow>
   decrypt_api_key E (k_key_encrypted api_key_record) = Inl e \<Longrightarrow>
     run_import_job E job_id d = (Raised e, d)"
  by (simp add: run_import_job_def init_state_def)

theorem decrypt_failure_escapes_witness:
  "find (\<lambda>j. j_id j = 3) (import_jobs db1) = Some job1 \<and>
   find (\<lambda>k. k_id k = j_api_key_id job1) (api_keys db1) = Some key1 \<and>
   decrypt_api_key env_bad_key (k_key_encrypted key1) = Inl (Error ''InvalidToken'' []) \<and>
   run_import_job env_bad_key 3 db1 = (Raised (Error ''InvalidToken'' []), db1) \<and>
   j_status job1 = ''running'' \<and> j_error_details job1 = None"
proof -
  have h1: "find (\<lambda>j. j_id j = 3) (import_jobs db1) = Some job1"
    by (simp add: db1_def job1_def)
  have h2: "find (\<lambda>k. k_id k = j_api_key_id job1) (api_keys db1) = Some key1"
    by (simp add: db1_def job1_def key1_def)
  have h3: "decrypt_api_key env_bad_key (k_key_encrypted key1) = Inl (Error ''InvalidToken'' [])"
    by (simp add: env_bad_key_def env1_def)
  have "j_status job1 = ''running'' \<and> j_error_details job1 = None"
    by (simp add: job1_def)
  with h1 h2 h3 decrypt_failure_escapes [OF h1 h2 h3] show ?thesis by simp
qed

text \<open>
  C2. The claim: every started run leaves its job with a status among \<open>failed\<close>,
  \<open>success\<close>, \<open>partial\<close> and with \<^verbatim>\<open>finished_at\<close> set. The code, on the example job
  whose key does not decrypt: the run ends by the escaping exception, and the job read
  back afterwards is the row as it was created, \<open>running\<close> and without
  \<^verbatim>\<open>finished_at\<close>.
\<close>

theorem run_left_running:
  "fst (run_import_job env_bad_key 3 db1) = Raised (Error ''InvalidToken'' []) \<and>
   get_import_job 3 (snd (run_import_job env_bad_key 3 db1)) = Inr job1 \<and>
   j_status job1 = ''running'' \<and> j_finished_at job1 = None"
  by (simp add: run_eval example_defs)

section \<open>Artifacts and their messages\<close>

text \<open>
  C5. The claim: an artifact whose message sequence index matches an inserted message
  is stored linked to that message, and one whose index matches none is stored
  unlinked. The code, on the example conversation \<open>a\<close>: the artifact names sequence
  index 1, the message with sequence index 1 is inserted, and the artifact row is
  stored with \<^verbatim>\<open>message_id\<close> NULL; the constructor call at lines 130 to 139 never
  sets the column.
\<close>

theorem artifact_stored_unlinked:
  "map pa_message_sequence_index (d_artifacts detail_a) = [Some 1] \<and>
   map m_sequence_index (messages (snd (run_import_job (env1 [''a'']) 3 db1))) = [0, 1, 2] \<and>
   map a_message_id (artifacts (snd (run_import_job (env1 [''a'']) 3 db1))) = [None]"
  by (simp add: run_eval example_defs)

section \<open>What the end of a run writes\<close>

lemma fail_job_tables:
  "providers (committed (fail_job E jid reason st)) = providers (pending st)"
  "api_keys (committed (fail_job E jid reason st)) = api_keys (pending st)"
  "conversations (committed (fail_job E jid reason st)) = conversations (pending st)"
  "messages (committed (fail_job E jid reason st)) = messages (pending st)"
  "artifacts (committed (fail_job E jid reason st)) = artifacts (pending st)"
  by (simp_all add: fail_job_def commit_def update_job_def)

lemma finalize_tables:
  "providers (committed (finalize E jid kid st)) = providers (pending st)"
  "conversations (committed (finalize E jid kid st)) = conversations (pending st)"
  "messages (committed (finalize E jid kid st)) = messages (pending st)"
  "artifacts (committed (finalize E jid kid st)) = artifacts (pending st)"
  "api_keys (committed (finalize E jid kid st)) =
     map (\<lambda>k. if k_id k = kid then k\<lparr>k_last_used_at := Some (now E)\<rparr> else k)
         (api_keys (pending st))"
  by (simp_all add: finalize_def commit_def update_job_def update_api_key_def)

lemma init_state_simps:
  "pending (init_state d) = d" "committed (init_state d) = d" "errors (init_state d) = []"
  "conversations_count (init_state d) = 0" "messages_count (init_state d) = 0"
  "artifacts_count (init_state d) = 0"
  by (simp_all add: init_state_def)

lemma find_updated_job:
  "find (\<lambda>j. j_id j = jid) js = Some job \<Longrightarrow> (\<And>j. j_id (f j) = j_id j) \<Longrightarrow>
     find (\<lambda>j. j_id j = jid) (map (\<lambda>j. if j_id j = jid then f j else j) js) = Some (f job)"
  by (induction js) (auto split: if_splits)

text \<open>The run that passes the four fatal checks and the list call.\<close>

lemma run_import_job_Finalized:
  assumes "find (\<lambda>j. j_id j = job_id) (import_jobs d) = Some job"
    and "find (\<lambda>k. k_id k = j_api_key_id job) (api_keys d) = Some api_key_record"
    and "decrypt_api_key E (k_key_encrypted api_key_record) = Inr api_key"
    and "find (\<lambda>p. p_id p = j_provider_id job) (providers d) = Some provider"
    and "get_adapter (registry E) (p_name provider) = Inr adp"
    and "list_conversations adp api_key (build_options job) = Inr conv_summaries"
  shows "run_import_job E job_id d =
           (Finalized,
            committed (finalize E (j_id job) (k_id api_key_record)
              (import_loop E adp api_key provider job conv_summaries (init_state d))))"
  using assms by (simp add: run_import_job_def init_state_simps)

section \<open>Deduplication\<close>

lemma import_one_dedup:
  assumes inv: "pending st = committed st"
    and ex: "filter (same_conversation pid cid) (conversations (committed st)) \<noteq> []"
  shows "filter (same_conversation pid cid)
           (conversations (committed (import_one E adp key p job s st)))
         = filter (same_conversation pid cid) (conversations (committed st))"
proof (cases rule: try_import_cases [of adp key s E p job st])
  case (Imported detail)
  have "\<not> same_conversation pid cid (new_conversation (uuid4 E (uuid_calls st)) p job detail)"
  proof
    assume "same_conversation pid cid (new_conversation (uuid4 E (uuid_calls st)) p job detail)"
    then have "pid = p_id p" "cid = d_provider_conversation_id detail"
      by (simp_all add: same_conversation_def new_conversation_def)
    with find_same_None [OF Imported(2)] inv ex show False by simp
  qed
  then show ?thesis using Imported inv
    by (simp add: import_one_def conversation_stored_def)
qed (simp_all add: import_one_def rollback_def)

lemma import_loop_dedup:
  assumes "pending st = committed st"
    and "filter (same_conversation pid cid) (conversations (committed st)) \<noteq> []"
  shows "filter (same_conversation pid cid)
           (conversations (committed (import_loop E adp key p job ss st)))
         = filter (same_conversation pid cid) (conversations (committed st))"
  using assms
proof (induction ss arbitrary: st)
  case Nil
  show ?case by (simp add: import_loop_Nil)
next
  case (Cons s ss)
  have eq: "filter (same_conversation pid cid)
              (conversations (committed (import_one E adp key p job s st)))
            = filter (same_conversation pid cid) (conversations (committed st))"
    using import_one_dedup [OF Cons.prems] .
  with Cons.prems(2) have ne: "filter (same_conversation pid cid)
              (conversations (committed (import_one E adp key p job s st))) \<noteq> []"
    by simp
  show ?case
    using Cons.IH [OF import_one_inv [OF Cons.prems(1)] ne] eq
    by (simp add: import_loop_Cons)
qed

lemma import_loop_init_inv:
  "pending (import_loop E adp key p job ss (init_state d))
     = committed (import_loop E adp key p job ss (init_state d))"
  by (rule import_loop_inv) (simp add: init_state_simps)

lemma run_conversations:
  assumes "Q (conversations d)"
    and "\<And>adp key p job ss.
           Q (conversations (committed (import_loop E adp key p job ss (init_state d))))"
  shows "Q (conversations (snd (run_import_job E job_id d)))"
  using assms
  by (auto simp: run_import_job_def Let_def init_state_simps fail_job_tables finalize_tables
                 import_loop_init_inv
           split: option.splits sum.splits exn.splits)

text \<open>
  C9. For a conversation whose pair of provider and provider-native id is already in
  storage, a run of the import (with any adapter, for any job) leaves the rows with that
  pair exactly as they were: no second row is created and the existing one is not
  modified. Moreover no run changes or removes any conversation row: the table before
  the run is a prefix of the table after it.
\<close>

theorem dedup_idempotent:
  "filter (same_conversation pid cid) (conversations d) \<noteq> [] \<Longrightarrow>
     filter (same_conversation pid cid) (conversations (snd (run_import_job E job_id d)))
       = filter (same_conversation pid cid) (conversations d)
     \<and> prefix (conversations d) (conversations (snd (run_import_job E job_id d)))"
proof -
  assume ex: "filter (same_conversation pid cid) (conversations d) \<noteq> []"
  have inv: "pending (init_state d) = committed (init_state d)"
    by (simp add: init_state_simps)
  from ex have ex': "filter (same_conversation pid cid)
                       (conversations (committed (init_state d))) \<noteq> []"
    by (simp add: init_state_simps)
  show ?thesis
  proof (rule run_conversations)
    show "filter (same_conversation pid cid) (conversations d)
            = filter (same_conversation pid cid) (conversations d)
          \<and> prefix (conversations d) (conversations d)"
      by simp
  next
    fix adp key p job ss
    show "filter (same_conversation pid cid)
            (conversations (committed (import_loop E adp key p job ss (init_state d))))
            = filter (same_conversation pid cid) (conversations d)
          \<and> prefix (conversations d)
              (conversations (committed (import_loop E adp key p job ss (init_state d))))"
      using import_loop_dedup [OF inv ex', of E adp key p job ss]
            import_loop_frame(4) [OF inv, of E adp key p job ss]
      by (simp add: init_state_simps)
  qed
qed

theorem dedup_idempotent_witness:
  "filter (same_conversation 1 ''a'') (conversations db2) \<noteq> [] \<and>
   filter (same_conversation 1 ''a'')
     (conversations (snd (run_import_job (env1 [''a'', ''b'']) 3 db2))) = [conv_a] \<and>
   prefix (conversations db2) (conversations (snd (run_import_job (env1 [''a'', ''b'']) 3 db2)))"
proof -
  have h: "filter (same_conversation 1 ''a'') (conversations db2) \<noteq> []"
    by (simp add: db2_def db1_def conv_a_def same_conversation_def)
  have "filter (same_conversation 1 ''a'') (conversations db2) = [conv_a]"
    by (simp add: db2_def db1_def conv_a_def same_conversation_def)
  with h dedup_idempotent [OF h, of "env1 [''a'', ''b'']" 3] show ?thesis by simp
qed

section \<open>Atomic persistence of one conversation\<close>

lemma import_one_imported:
  assumes inv: "pending st = committed st"
    and ok: "\<not> isl (try_import E adp key p job s st)"
    and changed: "import_one E adp key p job s st \<noteq> st"
  shows "\<exists>detail. fetch_conversation adp key (s_provider_conversation_id s) = Inr detail \<and>
           committed (import_one E adp key p job s st)
             = conversation_stored E p job detail (uuid_calls st) (committed st)"
  using inv ok changed
  by (cases rule: try_import_cases [of adp key s E p job st]) (auto simp: import_one_def)

text \<open>
  C8. Persisting one conversation is atomic. Take any point of a run, after the
  summaries \<open>pre\<close>, and the iteration for the next summary. If its \<^verbatim>\<open>try\<close> body raises
  (in the fetch, in the flush of the conversation row or in the commit of the message
  and artifact rows), the committed database and the session are what they were before
  the iteration: nothing of the conversation remains. A duplicate leaves the whole
  state as it was, error list included. In every case the rows committed earlier are
  still there, unchanged and in place. And when the iteration does store something, it
  is the whole conversation: its row, all its messages and all its artifacts.
\<close>

theorem persist_atomic:
  "let st = import_loop E adp key p job pre (init_state d);
       st' = import_one E adp key p job s st
   in (isl (try_import E adp key p job s st) \<longrightarrow>
         committed st' = committed st \<and> pending st' = committed st)
    \<and> (\<forall>detail existing.
         fetch_conversation adp key (s_provider_conversation_id s) = Inr detail \<and>
         find (same_conversation (p_id p) (d_provider_conversation_id detail))
              (conversations (pending st)) = Some existing \<longrightarrow> st' = st)
    \<and> prefix (conversations (committed st)) (conversations (committed st'))
    \<and> prefix (messages (committed st)) (messages (committed st'))
    \<and> prefix (artifacts (committed st)) (artifacts (committed st'))
    \<and> (\<not> isl (try_import E adp key p job s st) \<and> st' \<noteq> st \<longrightarrow>
         (\<exists>detail. fetch_conversation adp key (s_provider_conversation_id s) = Inr detail \<and>
            committed st' = conversation_stored E p job detail (uuid_calls st) (committed st)))"
proof -
  define st where "st = import_loop E adp key p job pre (init_state d)"
  have inv: "pending st = committed st"
    unfolding st_def by (rule import_loop_init_inv)
  have 1: "isl (try_import E adp key p job s st) \<longrightarrow>
         committed (import_one E adp key p job s st) = committed st \<and>
         pending (import_one E adp key p job s st) = committed st"
    using import_one_raised_committed by blast
  have 2: "\<forall>detail existing.
         fetch_conversation adp key (s_provider_conversation_id s) = Inr detail \<and>
         find (same_conversation (p_id p) (d_provider_conversation_id detail))
              (conversations (pending st)) = Some existing \<longrightarrow>
         import_one E adp key p job s st = st"
    using import_one_skipped by blast
  have 3: "\<not> isl (try_import E adp key p job s st) \<and> import_one E adp key p job s st \<noteq> st \<longrightarrow>
         (\<exists>detail. fetch_conversation adp key (s_provider_conversation_id s) = Inr detail \<and>
            committed (import_one E adp key p job s st)
              = conversation_stored E p job detail (uuid_calls st) (committed st))"
    using import_one_imported [OF inv] by blast
  show ?thesis
    unfolding Let_def st_def [symmetric]
    using 1 2 3 import_one_frame(4,5,6) [OF inv, of E adp key p job s] by blast
qed

theorem persist_atomic_witness:
  "isl (try_import (env1 [''a'', ''b'']) (scenario_adapter [''a'', ''b'']) ''sk-test'' prov1 job1
         (summary_of ''b'')
         (import_loop (env1 [''a'', ''b'']) (scenario_adapter [''a'', ''b'']) ''sk-test'' prov1
            job1 [summary_of ''a''] (init_state db1))) \<and>
   committed (import_one (env1 [''a'', ''b'']) (scenario_adapter [''a'', ''b'']) ''sk-test''
         prov1 job1 (summary_of ''b'')
         (import_loop (env1 [''a'', ''b'']) (scenario_adapter [''a'', ''b'']) ''sk-test'' prov1
            job1 [summary_of ''a''] (init_state db1)))
     = committed (import_loop (env1 [''a'', ''b'']) (scenario_adapter [''a'', ''b''])
         ''sk-test'' prov1 job1 [summary_of ''a''] (init_state db1)) \<and>
   map c_provider_conversation_id (conversations (committed
       (import_loop (env1 [''a'', ''b'']) (scenario_adapter [''a'', ''b'']) ''sk-test'' prov1
            job1 [summary_of ''a''] (init_state db1)))) = [Some ''a'']"
proof -
  have h: "isl (try_import (env1 [''a'', ''b'']) (scenario_adapter [''a'', ''b'']) ''sk-test''
         prov1 job1 (summary_of ''b'')
         (import_loop (env1 [''a'', ''b'']) (scenario_adapter [''a'', ''b'']) ''sk-test'' prov1
            job1 [summary_of ''a''] (init_state db1)))"
    by (simp add: try_import_def scenario_adapter_def summary_of_def)
  have c: "map c_provider_conversation_id (conversations (committed
       (import_loop (env1 [''a'', ''b'']) (scenario_adapter [''a'', ''b'']) ''sk-test'' prov1
            job1 [summary_of ''a''] (init_state db1)))) = [Some ''a'']"
    by (simp add: run_eval example_defs)
  show ?thesis
    using h c
      persist_atomic [of "env1 [''a'', ''b'']" "scenario_adapter [''a'', ''b'']" "''sk-test''"
        prov1 job1 "[summary_of ''a'']" db1 "summary_of ''b''"]
    by (simp add: Let_def)
qed

section \<open>Outcomes, errors and counters of the loop\<close>

lemma outcomes_length [simp]:
  "length (outcomes E adp key p job ss st) = length ss"
  by (induction ss arbitrary: st) simp_all

lemma import_loop_errors:
  "errors (import_loop E adp key p job ss st)
     = errors st @ failure_entries ss (outcomes E adp key p job ss st)"
proof (induction ss arbitrary: st)
  case Nil
  show ?case by (simp add: import_loop_Nil)
next
  case (Cons s ss)
  show ?case
    by (cases "try_import E adp key p job s st")
       (auto simp: import_loop_Cons Cons.IH import_one_errors outcome_of_def)
qed

lemma failure_entries_length:
  "length ss = length os \<Longrightarrow>
     length (failure_entries ss os) = length (filter is_failed os)"
proof (induction ss os rule: list_induct2)
  case Nil
  show ?case by simp
next
  case (Cons s ss oc os)
  then show ?case by (cases oc) simp_all
qed

lemma finalize_job:
  assumes "find (\<lambda>j. j_id j = jid) (import_jobs (pending st)) = Some job"
  shows "get_import_job jid (committed (finalize E jid kid st)) =
     Inr (job\<lparr>j_status := (if errors st = [] then ''success'' else ''partial''),
              j_conversations_imported := conversations_count st,
              j_messages_imported := messages_count st,
              j_artifacts_imported := artifacts_count st,
              j_summary := Some (summary_text (conversations_count st)
                                   (messages_count st) (artifacts_count st)),
              j_error_details := (if errors st = [] then j_error_details job
                                  else Some (join [CHR 0x0A] (take 10 (errors st)))),
              j_finished_at := Some (now E)\<rparr>)"
  using find_updated_job [OF assms, of
      "\<lambda>j. j\<lparr>j_status := (if errors st = [] then ''success'' else ''partial''),
              j_conversations_imported := conversations_count st,
              j_messages_imported := messages_count st,
              j_artifacts_imported := artifacts_count st,
              j_summary := Some (summary_text (conversations_count st)
                                   (messages_count st) (artifacts_count st)),
              j_error_details := (if errors st = [] then j_error_details j
                                  else Some (join [CHR 0x0A] (take 10 (errors st)))),
              j_finished_at := Some (now E)\<rparr>"]
  by (simp add: get_import_job_def finalize_def commit_def update_job_def update_api_key_def)

lemma find_job_id: "find (\<lambda>j. j_id j = jid) js = Some job \<Longrightarrow> j_id job = jid"
  by (auto simp: find_Some_iff)

lemma import_loop_init_jobs:
  "import_jobs (pending (import_loop E adp key p job ss (init_state d))) = import_jobs d"
  using import_loop_frame(3) [of "init_state d" E adp key p job ss]
  by (simp add: import_loop_init_inv init_state_simps)

text \<open>A summary that does not fail has its conversation in the committed table.\<close>

lemma import_one_stored:
  assumes inv: "pending st = committed st"
    and ok: "\<not> is_failed (outcome_of st (try_import E adp key p job s st))"
  shows "\<exists>detail c. fetch_conversation adp key (s_provider_conversation_id s) = Inr detail \<and>
           c \<in> set (conversations (committed (import_one E adp key p job s st))) \<and>
           same_conversation (p_id p) (d_provider_conversation_id detail) c"
proof (cases rule: try_import_cases [of adp key s E p job st])
  case (FetchRaised e)
  with ok show ?thesis by (simp add: outcome_of_def)
next
  case (Skipped detail existing)
  have same: "import_one E adp key p job s st = st"
    using import_one_skipped [OF Skipped(1,2)] .
  have "existing \<in> set (conversations (committed st))"
    and "same_conversation (p_id p) (d_provider_conversation_id detail) existing"
    using find_same_Some [OF Skipped(2)] inv by simp_all
  with Skipped(1) same show ?thesis by metis
next
  case (FlushRaised detail e st1)
  with ok show ?thesis by (simp add: outcome_of_def)
next
  case (CommitRaised detail e st4)
  with ok show ?thesis by (simp add: outcome_of_def)
next
  case (Imported detail)
  have "new_conversation (uuid4 E (uuid_calls st)) p job detail
          \<in> set (conversations (committed (import_one E adp key p job s st)))"
    using Imported(4) by (simp add: import_one_def conversation_stored_def)
  moreover have "same_conversation (p_id p) (d_provider_conversation_id detail)
                   (new_conversation (uuid4 E (uuid_calls st)) p job detail)"
    by (simp add: same_conversation_def new_conversation_def)
  ultimately show ?thesis using Imported(1) by metis
qed

lemma import_loop_stored:
  assumes "pending st = committed st"
    and "i < length ss"
    and "\<not> is_failed (outcomes E adp key p job ss st ! i)"
  shows "\<exists>detail c.
           fetch_conversation adp key (s_provider_conversation_id (ss ! i)) = Inr detail \<and>
           c \<in> set (conversations (committed (import_loop E adp key p job ss st))) \<and>
           same_conversation (p_id p) (d_provider_conversation_id detail) c"
  using assms
proof (induction ss arbitrary: st i)
  case Nil
  then show ?case by simp
next
  case (Cons s ss)
  have inv': "pending (import_one E adp key p job s st)
                = committed (import_one E adp key p job s st)"
    using import_one_inv [OF Cons.prems(1)] .
  have step: "import_loop E adp key p job (s # ss) st
                = import_loop E adp key p job ss (import_one E adp key p job s st)"
    by (rule import_loop_Cons)
  show ?case
  proof (cases i)
    case 0
    with Cons.prems(3) have "\<not> is_failed (outcome_of st (try_import E adp key p job s st))"
      by simp
    from import_one_stored [OF Cons.prems(1) this]
    obtain detail c where
      f: "fetch_conversation adp key (s_provider_conversation_id s) = Inr detail"
      and c: "c \<in> set (conversations (committed (import_one E adp key p job s st)))"
      and sc: "same_conversation (p_id p) (d_provider_conversation_id detail) c"
      by blast
    have "set (conversations (committed (import_one E adp key p job s st)))
            \<subseteq> set (conversations (committed
                 (import_loop E adp key p job ss (import_one E adp key p job s st))))"
      using import_loop_frame(4) [OF inv', of E adp key p job ss] by (rule set_mono_prefix)
    with c have c': "c \<in> set (conversations (committed (import_loop E adp key p job (s # ss) st)))"
      unfolding step by blast
    have "(s # ss) ! i = s" using 0 by simp
    with f c' sc show ?thesis by metis
  next
    case (Suc n)
    with Cons.prems have n: "n < length ss"
      and nf: "\<not> is_failed (outcomes E adp key p job ss (import_one E adp key p job s st) ! n)"
      by simp_all
    have "(s # ss) ! i = ss ! n" using Suc by simp
    with Cons.IH [OF inv' n nf] show ?thesis unfolding step by simp
  qed
qed

section \<open>Isolation of item failures\<close>

text \<open>
  C1. In every run whose list call succeeds, no exception of an item leaves the loop:
  the run ends at its finalization. Every summary of the list gets its outcome; the error
  list holds exactly one entry for each summary whose fetch or persist raised, in order;
  the job ends with status \<open>success\<close> when the error list is empty and \<open>partial\<close>
  otherwise, with \<^verbatim>\<open>finished_at\<close> set; and every summary that did not raise has its
  conversation in the database at the end, whatever happened to the summaries before
  and after it.
\<close>

theorem item_failures_isolated:
  assumes job: "find (\<lambda>j. j_id j = job_id) (import_jobs d) = Some job"
    and key: "find (\<lambda>k. k_id k = j_api_key_id job) (api_keys d) = Some api_key_record"
    and dec: "decrypt_api_key E (k_key_encrypted api_key_record) = Inr api_key"
    and prov: "find (\<lambda>p. p_id p = j_provider_id job) (providers d) = Some provider"
    and adp: "get_adapter (registry E) (p_name provider) = Inr adp"
    and lst: "list_conversations adp api_key (build_options job) = Inr conv_summaries"
  shows
   "let st = import_loop E adp api_key provider job conv_summaries (init_state d);
        os = outcomes E adp api_key provider job conv_summaries (init_state d);
        d' = snd (run_import_job E job_id d)
    in fst (run_import_job E job_id d) = Finalized
     \<and> length os = length conv_summaries
     \<and> errors st = failure_entries conv_summaries os
     \<and> length (errors st) = length (filter is_failed os)
     \<and> (\<exists>job'. get_import_job job_id d' = Inr job'
            \<and> j_status job' = (if errors st = [] then ''success'' else ''partial'')
            \<and> j_finished_at job' = Some (now E))
     \<and> (\<forall>i<length conv_summaries. \<not> is_failed (os ! i) \<longrightarrow>
           (\<exists>detail c.
              fetch_conversation adp api_key
                (s_provider_conversation_id (conv_summaries ! i)) = Inr detail
              \<and> c \<in> set (conversations d')
              \<and> same_conversation (p_id provider) (d_provider_conversation_id detail) c))"
proof -
  define st where "st = import_loop E adp api_key provider job conv_summaries (init_state d)"
  define os where "os = outcomes E adp api_key provider job conv_summaries (init_state d)"
  have run: "run_import_job E job_id d =
               (Finalized, committed (finalize E (j_id job) (k_id api_key_record) st))"
    unfolding st_def by (rule run_import_job_Finalized [OF job key dec prov adp lst])
  have jid: "j_id job = job_id" using find_job_id [OF job] .
  have inv0: "pending (init_state d) = committed (init_state d)"
    by (simp add: init_state_simps)
  have inv: "pending st = committed st"
    unfolding st_def by (rule import_loop_init_inv)
  have len: "length os = length conv_summaries"
    unfolding os_def by simp
  have errs: "errors st = failure_entries conv_summaries os"
    unfolding st_def os_def by (simp add: import_loop_errors init_state_simps)
  have elen: "length (errors st) = length (filter is_failed os)"
    unfolding errs using failure_entries_length [of conv_summaries os] len by simp
  have "find (\<lambda>j. j_id j = job_id) (import_jobs (pending st)) = Some job"
    unfolding st_def using job by (simp add: import_loop_init_jobs)
  from finalize_job [OF this, of E "k_id api_key_record"]
  have jobrow: "\<exists>job'. get_import_job job_id (snd (run_import_job E job_id d)) = Inr job'
            \<and> j_status job' = (if errors st = [] then ''success'' else ''partial'')
            \<and> j_finished_at job' = Some (now E)"
    by (simp add: run jid)
  have convs: "conversations (snd (run_import_job E job_id d)) = conversations (committed st)"
    by (simp add: run finalize_tables inv)
  have stored: "\<forall>i<length conv_summaries. \<not> is_failed (os ! i) \<longrightarrow>
           (\<exists>detail c.
              fetch_conversation adp api_key
                (s_provider_conversation_id (conv_summaries ! i)) = Inr detail
              \<and> c \<in> set (conversations (snd (run_import_job E job_id d)))
              \<and> same_conversation (p_id provider) (d_provider_conversation_id detail) c)"
    unfolding convs st_def os_def
    using import_loop_stored [OF inv0, of _ conv_summaries E adp api_key provider job]
    by blast
  show ?thesis
    unfolding Let_def st_def [symmetric] os_def [symmetric]
    using run len errs elen jobrow stored by simp
qed

theorem item_failures_isolated_witness:
  "find (\<lambda>j. j_id j = 3) (import_jobs db1) = Some job1 \<and>
   find (\<lambda>k. k_id k = j_api_key_id job1) (api_keys db1) = Some key1 \<and>
   decrypt_api_key (env1 [''b'', ''a'']) (k_key_encrypted key1) = Inr ''sk-test'' \<and>
   find (\<lambda>p. p_id p = j_provider_id job1) (providers db1) = Some prov1 \<and>
   get_adapter (registry (env1 [''b'', ''a''])) (p_name prov1) = Inr (scenario_adapter [''b'', ''a'']) \<and>
   list_conversations (scenario_adapter [''b'', ''a'']) ''sk-test'' (build_options job1)
     = Inr [summary_of ''b'', summary_of ''a''] \<and>
   outcomes (env1 [''b'', ''a'']) (scenario_adapter [''b'', ''a'']) ''sk-test'' prov1 job1
     [summary_of ''b'', summary_of ''a''] (init_state db1)
     = [Failed (Error ''TimeoutError'' ''timed out''), Imported] \<and>
   fst (run_import_job (env1 [''b'', ''a'']) 3 db1) = Finalized \<and>
   errors (import_loop (env1 [''b'', ''a'']) (scenario_adapter [''b'', ''a'']) ''sk-test'' prov1
            job1 [summary_of ''b'', summary_of ''a''] (init_state db1))
     = [''Error importing conversation b: timed out''] \<and>
   (\<exists>job'. get_import_job 3 (snd (run_import_job (env1 [''b'', ''a'']) 3 db1)) = Inr job'
      \<and> j_status job' = ''partial'' \<and> j_finished_at job' = Some 100)"
proof -
  have h1: "find (\<lambda>j. j_id j = 3) (import_jobs db1) = Some job1"
    by (simp add: db1_def job1_def)
  have h2: "find (\<lambda>k. k_id k = j_api_key_id job1) (api_keys db1) = Some key1"
    by (simp add: db1_def job1_def key1_def)
  have h3: "decrypt_api_key (env1 [''b'', ''a'']) (k_key_encrypted key1) = Inr ''sk-test''"
    by (simp add: env1_def)
  have h4: "find (\<lambda>p. p_id p = j_provider_id job1) (providers db1) = Some prov1"
    by (simp add: db1_def job1_def prov1_def)
  have h5: "get_adapter (registry (env1 [''b'', ''a''])) (p_name prov1)
              = Inr (scenario_adapter [''b'', ''a''])"
    by (simp add: get_adapter_def env1_def prov1_def)
  have h6: "list_conversations (scenario_adapter [''b'', ''a'']) ''sk-test'' (build_options job1)
              = Inr [summary_of ''b'', summary_of ''a'']"
    by (simp add: scenario_adapter_def)
  have os: "outcomes (env1 [''b'', ''a'']) (scenario_adapter [''b'', ''a'']) ''sk-test'' prov1 job1
     [summary_of ''b'', summary_of ''a''] (init_state db1)
     = [Failed (Error ''TimeoutError'' ''timed out''), Imported]"
    by (simp add: run_eval example_defs)
  have en: "now (env1 [''b'', ''a'']) = 100"
    by (simp add: env1_def)
  have fe: "failure_entries [summary_of ''b'', summary_of ''a'']
              [Failed (Error ''TimeoutError'' ''timed out''), Imported]
            = [''Error importing conversation b: timed out'']"
    by (simp add: error_entry_def summary_of_def)
  note T = item_failures_isolated [OF h1 h2 h3 h4 h5 h6, unfolded Let_def, unfolded os]
  have fin: "fst (run_import_job (env1 [''b'', ''a'']) 3 db1) = Finalized"
    using T [THEN conjunct1] .
  have er: "errors (import_loop (env1 [''b'', ''a'']) (scenario_adapter [''b'', ''a''])
              ''sk-test'' prov1 job1 [summary_of ''b'', summary_of ''a''] (init_state db1))
            = [''Error importing conversation b: timed out'']"
    using T [THEN conjunct2, THEN conjunct2, THEN conjunct1] unfolding fe .
  have jr: "\<exists>job'. get_import_job 3 (snd (run_import_job (env1 [''b'', ''a'']) 3 db1)) = Inr job'
      \<and> j_status job' = ''partial'' \<and> j_finished_at job' = Some 100"
    using T [THEN conjunct2, THEN conjunct2, THEN conjunct2, THEN conjunct2, THEN conjunct1]
    unfolding er en by simp
  from h1 h2 h3 h4 h5 h6 os fin er jr show ?thesis by blast
qed

section \<open>The counters of a partial run\<close>

lemma import_one_count:
  assumes nocommit: "\<forall>c ms as. commit_raises E c ms as = None"
  shows "conversations_count (import_one E adp key p job s st)
           = conversations_count st
             + (if outcome_of st (try_import E adp key p job s st) = Imported then 1 else 0)"
proof (cases rule: try_import_cases [of adp key s E p job st])
  case (FetchRaised e)
  then show ?thesis by (simp add: import_one_def rollback_def outcome_of_def)
next
  case (Skipped detail existing)
  then show ?thesis by (simp add: import_one_def outcome_of_def)
next
  case (FlushRaised detail e st1)
  then show ?thesis by (simp add: import_one_def rollback_def outcome_of_def)
next
  case (CommitRaised detail e st4)
  with nocommit show ?thesis by simp
next
  case (Imported detail)
  define st' where "st' = st\<lparr>committed := conversation_stored E p job detail (uuid_calls st) (pending st),
                 pending := conversation_stored E p job detail (uuid_calls st) (pending st),
                 uuid_calls := Suc (uuid_calls st) + length (d_messages detail)
                                 + length (d_artifacts detail),
                 conversations_count := conversations_count st + 1,
                 messages_count := messages_count st + int (length (d_messages detail)),
                 artifacts_count := artifacts_count st + int (length (d_artifacts detail))\<rparr>"
  have c: "conversations_count st' = conversations_count st + 1"
    by (simp add: st'_def)
  then have ne: "st' \<noteq> st" by auto
  have t: "try_import E adp key p job s st = Inr st'"
    using Imported(4) by (simp add: st'_def)
  show ?thesis using c ne by (simp add: t import_one_def outcome_of_def)
qed

lemma import_loop_count:
  assumes nocommit: "\<forall>c ms as. commit_raises E c ms as = None"
  shows "conversations_count (import_loop E adp key p job ss st)
           = conversations_count st
             + int (count_list (outcomes E adp key p job ss st) Imported)"
proof (induction ss arbitrary: st)
  case Nil
  show ?case by (simp add: import_loop_Nil)
next
  case (Cons s ss)
  show ?case
    by (simp add: import_loop_Cons Cons.IH import_one_count [OF nocommit])
qed

lemma outcome_partition:
  "length os = count_list os Imported + count_list os Skipped + length (filter is_failed os)"
proof (induction os)
  case Nil
  show ?case by simp
next
  case (Cons oc os)
  then show ?case by (cases oc) simp_all
qed

text \<open>
  C4, as the claim states it, fails. On the example database that already holds
  conversation \<open>a\<close>, the adapter lists N = 2 summaries, \<open>a\<close> and \<open>b\<close>; exactly K = 1 of
  them raises (\<open>b\<close>, in its fetch) and \<open>a\<close> is skipped as a duplicate. The run ends
  \<open>partial\<close> with \<^verbatim>\<open>conversations_imported\<close> 0, not N - K = 1.
\<close>

theorem partial_count_counterexample:
  "list_conversations (scenario_adapter [''a'', ''b'']) ''sk-test'' (build_options job1)
     = Inr [summary_of ''a'', summary_of ''b''] \<and>
   outcomes (env1 [''a'', ''b'']) (scenario_adapter [''a'', ''b'']) ''sk-test'' prov1 job1
     [summary_of ''a'', summary_of ''b''] (init_state db2)
     = [Skipped, Failed (Error ''TimeoutError'' ''timed out'')] \<and>
   map j_status (import_jobs (snd (run_import_job (env1 [''a'', ''b'']) 3 db2))) = [''partial''] \<and>
   map j_conversations_imported
     (import_jobs (snd (run_import_job (env1 [''a'', ''b'']) 3 db2))) = [0] \<and>
   (0 :: int) \<noteq> 2 - 1"
  by (simp add: run_eval example_defs)

text \<open>
  C4, amended. If the list call returns N summaries, exactly K of them (0 < K < N)
  raise, none of them at the commit of its message and artifact rows (so each raises in
  its fetch or in the insert of its conversation row), and D of them are skipped as
  duplicates, then the finished run has status \<open>partial\<close>,
  \<^verbatim>\<open>conversations_imported\<close> = N - K - D, and \<^verbatim>\<open>error_details\<close> is the first 10 of the K
  error entries joined by newlines: at most 10 entries, also when K > 10.
\<close>

theorem partial_run_counts:
  assumes job: "find (\<lambda>j. j_id j = job_id) (import_jobs d) = Some job"
    and key: "find (\<lambda>k. k_id k = j_api_key_id job) (api_keys d) = Some api_key_record"
    and dec: "decrypt_api_key E (k_key_encrypted api_key_record) = Inr api_key"
    and prov: "find (\<lambda>p. p_id p = j_provider_id job) (providers d) = Some provider"
    and adp: "get_adapter (registry E) (p_name provider) = Inr adp"
    and lst: "list_conversations adp api_key (build_options job) = Inr conv_summaries"
    and nocommit: "\<forall>c ms as. commit_raises E c ms as = None"
    and N: "N = length conv_summaries"
    and K: "K = length (filter is_failed
                  (outcomes E adp api_key provider job conv_summaries (init_state d)))"
    and D: "D = count_list
                  (outcomes E adp api_key provider job conv_summaries (init_state d)) Skipped"
    and K0: "0 < K" and KN: "K < N"
  shows "\<exists>job'. get_import_job job_id (snd (run_import_job E job_id d)) = Inr job'
           \<and> j_status job' = ''partial''
           \<and> j_conversations_imported job' = int N - int K - int D
           \<and> j_error_details job' = Some (join [CHR 0x0A] (take 10
                (errors (import_loop E adp api_key provider job conv_summaries (init_state d)))))
           \<and> length (errors (import_loop E adp api_key provider job conv_summaries
                (init_state d))) = K
           \<and> length (take 10
                (errors (import_loop E adp api_key provider job conv_summaries (init_state d))))
               \<le> 10"
proof -
  define st where "st = import_loop E adp api_key provider job conv_summaries (init_state d)"
  define os where "os = outcomes E adp api_key provider job conv_summaries (init_state d)"
  have run: "run_import_job E job_id d =
               (Finalized, committed (finalize E (j_id job) (k_id api_key_record) st))"
    unfolding st_def by (rule run_import_job_Finalized [OF job key dec prov adp lst])
  have jid: "j_id job = job_id" using find_job_id [OF job] .
  have len: "length os = N"
    unfolding os_def N by simp
  have errs: "errors st = failure_entries conv_summaries os"
    unfolding st_def os_def by (simp add: import_loop_errors init_state_simps)
  have elen: "length (errors st) = K"
    unfolding errs K os_def [symmetric]
    using failure_entries_length [of conv_summaries os] len N by simp
  with K0 have ne: "errors st \<noteq> []" by auto
  have cnt: "conversations_count st = int (count_list os Imported)"
    unfolding st_def os_def using import_loop_count [OF nocommit, of adp api_key provider job
        conv_summaries "init_state d"]
    by (simp add: init_state_simps)
  have "N = count_list os Imported + D + K"
    using outcome_partition [of os] len unfolding D K os_def [symmetric] by simp
  with cnt have cnt': "conversations_count st = int N - int K - int D" by simp
  have "find (\<lambda>j. j_id j = job_id) (import_jobs (pending st)) = Some job"
    unfolding st_def using job by (simp add: import_loop_init_jobs)
  from finalize_job [OF this, of E "k_id api_key_record"]
  show ?thesis
    unfolding st_def [symmetric]
    by (simp add: run jid ne cnt' elen)
qed

theorem partial_run_counts_witness:
  "find (\<lambda>j. j_id j = 3) (import_jobs db1) = Some job1 \<and>
   find (\<lambda>k. k_id k = j_api_key_id job1) (api_keys db1) = Some key1 \<and>
   decrypt_api_key (env1 [''a'', ''a'', ''b'']) (k_key_encrypted key1) = Inr ''sk-test'' \<and>
   find (\<lambda>p. p_id p = j_provider_id job1) (providers db1) = Some prov1 \<and>
   get_adapter (registry (env1 [''a'', ''a'', ''b''])) (p_name prov1)
     = Inr (scenario_adapter [''a'', ''a'', ''b'']) \<and>
   list_conversations (scenario_adapter [''a'', ''a'', ''b'']) ''sk-test'' (build_options job1)
     = Inr (map summary_of [''a'', ''a'', ''b'']) \<and>
   (\<forall>c ms as. commit_raises (env1 [''a'', ''a'', ''b'']) c ms as = None) \<and>
   outcomes (env1 [''a'', ''a'', ''b'']) (scenario_adapter [''a'', ''a'', ''b'']) ''sk-test''
     prov1 job1 (map summary_of [''a'', ''a'', ''b'']) (init_state db1)
     = [Imported, Skipped, Failed (Error ''TimeoutError'' ''timed out'')] \<and>
   (\<exists>job'. get_import_job 3 (snd (run_import_job (env1 [''a'', ''a'', ''b'']) 3 db1)) = Inr job'
      \<and> j_status job' = ''partial'' \<and> j_conversations_imported job' = 3 - 1 - 1)"
proof -
  have h1: "find (\<lambda>j. j_id j = 3) (import_jobs db1) = Some job1"
    by (simp add: db1_def job1_def)
  have h2: "find (\<lambda>k. k_id k = j_api_key_id job1) (api_keys db1) = Some key1"
    by (simp add: db1_def job1_def key1_def)
  have h3: "decrypt_api_key (env1 [''a'', ''a'', ''b'']) (k_key_encrypted key1) = Inr ''sk-test''"
    by (simp add: env1_def)
  have h4: "find (\<lambda>p. p_id p = j_provider_id job1) (providers db1) = Some prov1"
    by (simp add: db1_def job1_def prov1_def)
  have h5: "get_adapter (registry (env1 [''a'', ''a'', ''b''])) (p_name prov1)
              = Inr (scenario_adapter [''a'', ''a'', ''b''])"
    by (simp add: get_adapter_def env1_def prov1_def)
  have h6: "list_conversations (scenario_adapter [''a'', ''a'', ''b'']) ''sk-test''
              (build_options job1) = Inr (map summary_of [''a'', ''a'', ''b''])"
    by (simp add: scenario_adapter_def)
  have h7: "\<forall>c ms as. commit_raises (env1 [''a'', ''a'', ''b'']) c ms as = None"
    by (simp add: env1_def)
  have os: "outcomes (env1 [''a'', ''a'', ''b'']) (scenario_adapter [''a'', ''a'', ''b''])
     ''sk-test'' prov1 job1 (map summary_of [''a'', ''a'', ''b'']) (init_state db1)
     = [Imported, Skipped, Failed (Error ''TimeoutError'' ''timed out'')]"
    by (simp add: run_eval example_defs)
  have N: "(3::nat) = length (map summary_of [''a'', ''a'', ''b''])" by simp
  have K: "(1::nat) = length (filter is_failed
             (outcomes (env1 [''a'', ''a'', ''b'']) (scenario_adapter [''a'', ''a'', ''b''])
                ''sk-test'' prov1 job1 (map summary_of [''a'', ''a'', ''b'']) (init_state db1)))"
    unfolding os by simp
  have D: "(1::nat) = count_list
             (outcomes (env1 [''a'', ''a'', ''b'']) (scenario_adapter [''a'', ''a'', ''b''])
                ''sk-test'' prov1 job1 (map summary_of [''a'', ''a'', ''b'']) (init_state db1))
             Skipped"
    unfolding os by simp
  have K0: "0 < (1::nat)" and KN: "(1::nat) < 3" by simp_all
  from partial_run_counts [OF h1 h2 h3 h4 h5 h6 h7 N K D K0 KN]
  have jr: "\<exists>job'. get_import_job 3 (snd (run_import_job (env1 [''a'', ''a'', ''b'']) 3 db1))
                = Inr job'
      \<and> j_status job' = ''partial'' \<and> j_conversations_imported job' = 3 - 1 - 1"
    by auto
  from h1 h2 h3 h4 h5 h6 h7 os jr show ?thesis by blast
qed

section \<open>The last-used timestamp of the key\<close>

lemma import_loop_init_keys:
  "api_keys (pending (import_loop E adp key p job ss (init_state d))) = api_keys d"
  using import_loop_frame(2) [of "init_state d" E adp key p job ss]
  by (simp add: import_loop_init_inv init_state_simps)

lemma find_key_id: "find (\<lambda>k. k_id k = kid) ks = Some k \<Longrightarrow> k_id k = kid"
  by (auto simp: find_Some_iff)

text \<open>
  C6. For a run of an existing job, the key's \<^verbatim>\<open>last_used_at\<close> is set to the time of
  the run exactly when the run reaches its finalization (line 161), and the table of
  keys is otherwise left as it was. The run reaches its finalization exactly when the
  key is found and decrypts, the provider is found, its adapter is registered (no fatal
  error in steps 1 to 4) and the list call returns.
\<close>

theorem last_used_iff_finalized:
  assumes job: "find (\<lambda>j. j_id j = job_id) (import_jobs d) = Some job"
  shows "api_keys (snd (run_import_job E job_id d)) =
           (if fst (run_import_job E job_id d) = Finalized
            then map (\<lambda>k. if k_id k = j_api_key_id job
                           then k\<lparr>k_last_used_at := Some (now E)\<rparr> else k) (api_keys d)
            else api_keys d)
       \<and> (fst (run_import_job E job_id d) = Finalized \<longleftrightarrow>
            (\<exists>api_key_record api_key provider adp conv_summaries.
               find (\<lambda>k. k_id k = j_api_key_id job) (api_keys d) = Some api_key_record \<and>
               decrypt_api_key E (k_key_encrypted api_key_record) = Inr api_key \<and>
               find (\<lambda>p. p_id p = j_provider_id job) (providers d) = Some provider \<and>
               get_adapter (registry E) (p_name provider) = Inr adp \<and>
               list_conversations adp api_key (build_options job) = Inr conv_summaries))"
proof (cases "find (\<lambda>k. k_id k = j_api_key_id job) (api_keys d)")
  case None
  then show ?thesis using job
    by (simp add: run_import_job_def Let_def init_state_simps fail_job_tables)
next
  case (Some api_key_record)
  note key = this
  show ?thesis
  proof (cases "decrypt_api_key E (k_key_encrypted api_key_record)")
    case (Inl e)
    then show ?thesis using job key
      by (simp add: run_import_job_def Let_def init_state_simps)
  next
    case (Inr api_key)
    note dec = this
    show ?thesis
    proof (cases "find (\<lambda>p. p_id p = j_provider_id job) (providers d)")
      case None
      then show ?thesis using job key dec
        by (simp add: run_import_job_def Let_def init_state_simps fail_job_tables)
    next
      case (Some provider)
      note prov = this
      show ?thesis
      proof (cases "get_adapter (registry E) (p_name provider)")
        case (Inl e)
        then show ?thesis using job key dec prov
          by (cases e)
             (simp_all add: run_import_job_def Let_def init_state_simps fail_job_tables)
      next
        case (Inr adp)
        note adp = this
        show ?thesis
        proof (cases "list_conversations adp api_key (build_options job)")
          case (Inl e)
          then show ?thesis using job key dec prov adp
            by (simp add: run_import_job_def Let_def init_state_simps fail_job_tables)
        next
          case (Inr conv_summaries)
          note run = run_import_job_Finalized [OF job key dec prov adp Inr]
          have kid: "k_id api_key_record = j_api_key_id job"
            using find_key_id [OF key] .
          have 1: "fst (run_import_job E job_id d) = Finalized"
            by (simp add: run)
          have 2: "api_keys (snd (run_import_job E job_id d)) =
                     map (\<lambda>k. if k_id k = j_api_key_id job
                           then k\<lparr>k_last_used_at := Some (now E)\<rparr> else k) (api_keys d)"
            by (simp add: run finalize_tables import_loop_init_keys kid)
          have 3: "\<exists>api_key_record api_key provider adp conv_summaries.
               find (\<lambda>k. k_id k = j_api_key_id job) (api_keys d) = Some api_key_record \<and>
               decrypt_api_key E (k_key_encrypted api_key_record) = Inr api_key \<and>
               find (\<lambda>p. p_id p = j_provider_id job) (providers d) = Some provider \<and>
               get_adapter (registry E) (p_name provider) = Inr adp \<and>
               list_conversations adp api_key (build_options job) = Inr conv_summaries"
            using key dec prov adp Inr by blast
          from 1 2 3 show ?thesis by simp
        qed
      qed
    qed
  qed
qed

theorem last_used_iff_finalized_witness:
  "find (\<lambda>j. j_id j = 3) (import_jobs db1) = Some job1 \<and>
   fst (run_import_job (env1 [''a'', ''b'']) 3 db1) = Finalized \<and>
   api_keys (snd (run_import_job (env1 [''a'', ''b'']) 3 db1))
     = [key1\<lparr>k_last_used_at := Some 100\<rparr>] \<and>
   fst (run_import_job env_bad_key 3 db1) \<noteq> Finalized \<and>
   api_keys (snd (run_import_job env_bad_key 3 db1)) = [key1]"
proof -
  have h: "find (\<lambda>j. j_id j = 3) (import_jobs db1) = Some job1"
    by (simp add: db1_def job1_def)
  have f: "fst (run_import_job (env1 [''a'', ''b'']) 3 db1) = Finalized"
    by (simp add: run_eval example_defs)
  have g: "fst (run_import_job env_bad_key 3 db1) \<noteq> Finalized"
    by (simp add: run_eval example_defs)
  have k: "map (\<lambda>k. if k_id k = j_api_key_id job1
                     then k\<lparr>k_last_used_at := Some (now (env1 [''a'', ''b'']))\<rparr> else k)
             (api_keys db1) = [key1\<lparr>k_last_used_at := Some 100\<rparr>]"
    by (simp add: db1_def key1_def job1_def env1_def)
  have k': "api_keys db1 = [key1]" by (simp add: db1_def)
  have a: "api_keys (snd (run_import_job (env1 [''a'', ''b'']) 3 db1))
             = [key1\<lparr>k_last_used_at := Some 100\<rparr>]"
    using last_used_iff_finalized [OF h, of "env1 [''a'', ''b'']", THEN conjunct1]
    unfolding k by (simp add: f)
  have b: "api_keys (snd (run_import_job env_bad_key 3 db1)) = [key1]"
    using last_used_iff_finalized [OF h, of env_bad_key, THEN conjunct1] g
    unfolding k' by simp
  from h f a g b show ?thesis by blast
qed

section \<open>A missing or inactive key\<close>

text \<open>
  C7, as the claim states it, fails for the inactive key. On the example database
  with the key deactivated, the run of the job does not fail: it decrypts the key, imports
  conversation \<open>a\<close> and ends with status \<open>success\<close>, and stamps the inactive key as used.
\<close>

theorem inactive_key_counterexample:
  "map k_is_active (api_keys db_inactive) = [False] \<and>
   fst (run_import_job (env1 [''a'']) 3 db_inactive) = Finalized \<and>
   map j_status (import_jobs (snd (run_import_job (env1 [''a'']) 3 db_inactive)))
     = [''success''] \<and>
   map c_provider_conversation_id
     (conversations (snd (run_import_job (env1 [''a'']) 3 db_inactive))) = [Some ''a''] \<and>
   map k_last_used_at (api_keys (snd (run_import_job (env1 [''a'']) 3 db_inactive)))
     = [Some 100]"
  by (simp add: run_eval example_defs)

text \<open>
  C7, amended. For every job run whose key row is missing when the run body executes,
  the run transitions the job to \<open>failed\<close> with the error \<open>API key not found\<close> and
  \<^verbatim>\<open>finished_at\<close> set, and stops before any item is processed: nothing else in the
  database changes. An inactive key is refused when the job is created
  (\<^verbatim>\<open>create_import_job\<close> answers 400 and creates no job); the run body does not look at
  the flag.
\<close>

theorem missing_key_fails_run:
  "(find (\<lambda>j. j_id j = job_id) (import_jobs d) = Some job \<and>
    find (\<lambda>k. k_id k = j_api_key_id job) (api_keys d) = None \<longrightarrow>
      run_import_job E job_id d =
        (ReturnKeyNotFound,
         d\<lparr>import_jobs := map (\<lambda>j. if j_id j = job_id
              then j\<lparr>j_status := ''failed'', j_error_details := Some ''API key not found'',
                      j_finished_at := Some (now E)\<rparr>
              else j) (import_jobs d)\<rparr>))
   \<and> (find (\<lambda>k. k_id k = jc_api_key_id job_data) (api_keys d') = Some api_key \<and>
      \<not> k_is_active api_key \<longrightarrow>
      create_import_job E job_data d' = Inl (HTTPException 400 ''API key is not active''))"
proof -
  have "j_id job = job_id" if "find (\<lambda>j. j_id j = job_id) (import_jobs d) = Some job"
    using find_job_id [OF that] .
  then show ?thesis
    by (auto simp: run_import_job_def Let_def init_state_simps fail_job_def commit_def
                   update_job_def create_import_job_def)
qed

theorem missing_key_fails_run_witness:
  "find (\<lambda>j. j_id j = 3) (import_jobs db_no_key) = Some job1 \<and>
   find (\<lambda>k. k_id k = j_api_key_id job1) (api_keys db_no_key) = None \<and>
   run_import_job (env1 [''a'']) 3 db_no_key =
     (ReturnKeyNotFound,
      db_no_key\<lparr>import_jobs := [job1\<lparr>j_status := ''failed'',
                     j_error_details := Some ''API key not found'',
                     j_finished_at := Some 100\<rparr>]\<rparr>) \<and>
   find (\<lambda>k. k_id k = jc_api_key_id
           \<lparr>jc_provider_id = 1, jc_api_key_id = 2, jc_from_date = None, jc_to_date = None\<rparr>)
        (api_keys db_inactive) = Some (key1\<lparr>k_is_active := False\<rparr>) \<and>
   \<not> k_is_active (key1\<lparr>k_is_active := False\<rparr>) \<and>
   create_import_job (env1 [''a''])
     \<lparr>jc_provider_id = 1, jc_api_key_id = 2, jc_from_date = None, jc_to_date = None\<rparr>
     db_inactive = Inl (HTTPException 400 ''API key is not active'')"
proof -
  have h1: "find (\<lambda>j. j_id j = 3) (import_jobs db_no_key) = Some job1"
    by (simp add: db_no_key_def db1_def job1_def)
  have h2: "find (\<lambda>k. k_id k = j_api_key_id job1) (api_keys db_no_key) = None"
    by (simp add: db_no_key_def db1_def)
  have h3: "find (\<lambda>k. k_id k = jc_api_key_id
           \<lparr>jc_provider_id = 1, jc_api_key_id = 2, jc_from_date = None, jc_to_date = None\<rparr>)
        (api_keys db_inactive) = Some (key1\<lparr>k_is_active := False\<rparr>)"
    by (simp add: db_inactive_def db1_def key1_def)
  have h4: "\<not> k_is_active (key1\<lparr>k_is_active := False\<rparr>)" by simp
  have m: "map (\<lambda>j. if j_id j = 3
              then j\<lparr>j_status := ''failed'', j_error_details := Some ''API key not found'',
                      j_finished_at := Some (now (env1 [''a'']))\<rparr>
              else j) (import_jobs db_no_key)
           = [job1\<lparr>j_status := ''failed'', j_error_details := Some ''API key not found'',
                   j_finished_at := Some 100\<rparr>]"
    by (simp add: db_no_key_def db1_def job1_def env1_def)
  note T = missing_key_fails_run [of 3 db_no_key job1 "env1 [''a'']"
      "\<lparr>jc_provider_id = 1, jc_api_key_id = 2, jc_from_date = None, jc_to_date = None\<rparr>"
      db_inactive "key1\<lparr>k_is_active := False\<rparr>"]
  have r: "run_import_job (env1 [''a'']) 3 db_no_key =
     (ReturnKeyNotFound,
      db_no_key\<lparr>import_jobs := [job1\<lparr>j_status := ''failed'',
                     j_error_details := Some ''API key not found'',
                     j_finished_at := Some 100\<rparr>]\<rparr>)"
    using T [THEN conjunct1] h1 h2 unfolding m by blast
  have c: "create_import_job (env1 [''a''])
     \<lparr>jc_provider_id = 1, jc_api_key_id = 2, jc_from_date = None, jc_to_date = None\<rparr>
     db_inactive = Inl (HTTPException 400 ''API key is not active'')"
    using T [THEN conjunct2] h3 h4 by blast
  from h1 h2 r h3 h4 c show ?thesis by blast
qed


end
